theory Spec2Isabelle
  imports Complex_Main
begin

section \<open>JavaScript numbers\<close>

text \<open>
  The evaluators compute on JavaScript numbers. The model keeps the special values
  of the number type apart (\<open>NaN\<close>, \<open>Infinity\<close>, \<open>-Infinity\<close>), because the code
  branches on them (\<open>x || 0\<close>), and takes every finite value as an exact real: rounding,
  overflow to infinity and the sign of zero are not modelled. A zero divisor is the
  positive zero, which is what a subtraction of two equal finite numbers yields.
\<close>

datatype jsnum = Finite real | PosInfinity | NegInfinity | NaN

fun js_neg :: "jsnum \<Rightarrow> jsnum" where
  "js_neg (Finite a) = Finite (- a)"
| "js_neg PosInfinity = NegInfinity"
| "js_neg NegInfinity = PosInfinity"
| "js_neg NaN = NaN"

fun js_add :: "jsnum \<Rightarrow> jsnum \<Rightarrow> jsnum" where
  "js_add NaN _ = NaN"
| "js_add _ NaN = NaN"
| "js_add (Finite a) (Finite b) = Finite (a + b)"
| "js_add PosInfinity NegInfinity = NaN"
| "js_add NegInfinity PosInfinity = NaN"
| "js_add PosInfinity _ = PosInfinity"
| "js_add _ PosInfinity = PosInfinity"
| "js_add NegInfinity _ = NegInfinity"
| "js_add _ NegInfinity = NegInfinity"

definition js_sub :: "jsnum \<Rightarrow> jsnum \<Rightarrow> jsnum" where
  "js_sub a b = js_add a (js_neg b)"

text \<open>The sign of a number that is not \<open>NaN\<close>, as \<open>-1\<close>, \<open>0\<close> or \<open>1\<close>.\<close>

fun js_sign :: "jsnum \<Rightarrow> int" where
  "js_sign (Finite a) = (if a < 0 then - 1 else if a = 0 then 0 else 1)"
| "js_sign PosInfinity = 1"
| "js_sign NegInfinity = - 1"
| "js_sign NaN = 0"

definition js_infinity :: "int \<Rightarrow> jsnum" where
  "js_infinity s = (if s < 0 then NegInfinity else PosInfinity)"

fun js_mul :: "jsnum \<Rightarrow> jsnum \<Rightarrow> jsnum" where
  "js_mul NaN _ = NaN"
| "js_mul _ NaN = NaN"
| "js_mul (Finite a) (Finite b) = Finite (a * b)"
| "js_mul a b =
     (if js_sign a = 0 \<or> js_sign b = 0 then NaN else js_infinity (js_sign a * js_sign b))"

fun js_div :: "jsnum \<Rightarrow> jsnum \<Rightarrow> jsnum" where
  "js_div NaN _ = NaN"
| "js_div _ NaN = NaN"
| "js_div (Finite a) (Finite b) =
     (if b = 0 then (if a = 0 then NaN else js_infinity (js_sign (Finite a)))
      else Finite (a / b))"
| "js_div (Finite a) _ = Finite 0"
| "js_div a (Finite b) = js_infinity (if b < 0 then - js_sign a else js_sign a)"
| "js_div _ _ = NaN"

fun js_less :: "jsnum \<Rightarrow> jsnum \<Rightarrow> bool" where
  "js_less NaN _ = False"
| "js_less _ NaN = False"
| "js_less (Finite a) (Finite b) = (a < b)"
| "js_less NegInfinity b = (b \<noteq> NegInfinity)"
| "js_less a PosInfinity = (a \<noteq> PosInfinity)"
| "js_less _ _ = False"

text \<open>\<open>Math.max\<close> of a list of arguments: \<open>NaN\<close> as soon as one argument is.\<close>

definition js_max2 :: "jsnum \<Rightarrow> jsnum \<Rightarrow> jsnum" where
  "js_max2 a b = (if a = NaN \<or> b = NaN then NaN else if js_less a b then b else a)"

definition Math_max :: "jsnum list \<Rightarrow> jsnum" where
  "Math_max xs = foldl js_max2 NegInfinity xs"

text \<open>A number is falsy when it is zero or \<open>NaN\<close>; \<open>x || y\<close> is \<open>y\<close> for a falsy \<open>x\<close>.\<close>

definition js_falsy :: "jsnum \<Rightarrow> bool" where
  "js_falsy x = (x = NaN \<or> x = Finite 0)"

definition js_or :: "jsnum \<Rightarrow> jsnum \<Rightarrow> jsnum" where
  "js_or x y = (if js_falsy x then y else x)"

section \<open>The expression AST\<close>

text \<open>
  The nodes of \<open>parsers\<close>: a number with an optional unit, an identifier, an operator and
  a function call, which has a name and a list of argument expressions; an expression is
  the list of its terms.
\<close>

record NumberNode =
  number :: jsnum
  unit :: "string option"

datatype ExpressionTerm =
    NumberNode NumberNode
  | IdentNode string
  | OperatorNode string
  | FunctionNode string "ExpressionTerm list list"

type_synonym ExpressionNode = "ExpressionTerm list"

definition ZERO :: NumberNode where
  "ZERO = \<lparr>number = Finite 0, unit = None\<rparr>"

definition AUTO :: ExpressionTerm where
  "AUTO = IdentNode ''auto''"

section \<open>Evaluators\<close>

text \<open>
  An \<open>Evaluator\<close> is one of the three classes that evaluate to a number node; each
  carries the base class's cache \<open>$lastValue\<close>. An \<open>Evaluatable\<close> is what an evaluator
  slot or the term stack of \<open>CalcEvaluator\<close> holds at run time: an evaluator, or a node
  that was stored as it is (a number node, the identifier of a spherical radius, an
  operator waiting on the stack). A function node is never stored: \<open>evaluatableFor\<close>
  replaces it first.
\<close>

datatype Evaluator =
    EnvEvaluator "string option" (lastValue: "ExpressionTerm option")
  | CalcEvaluator "Evaluatable option" (lastValue: "ExpressionTerm option")
  | OperatorEvaluator string Evaluatable Evaluatable (lastValue: "ExpressionTerm option")
and Evaluatable =
    NumberLiteral NumberNode
  | IdentLiteral string
  | OperatorLiteral string
  | Node Evaluator

text \<open>
  The only exception the code can raise: reading \<open>.value\<close> of \<open>node.name\<close> when the
  node has no \<open>name\<close>.
\<close>

datatype error = TypeError

subsection \<open>Construction\<close>

text \<open>
  \<open>EnvEvaluator\<close>: the first term of the first argument, kept when it is an identifier.
\<close>

definition EnvEvaluator_new :: "ExpressionNode list \<Rightarrow> Evaluator" where
  "EnvEvaluator_new arguments =
     (case arguments of
        [] \<Rightarrow> EnvEvaluator None None
      | terms # _ \<Rightarrow>
          (case terms of
             IdentNode v # _ \<Rightarrow> EnvEvaluator (Some v) None
           | _ \<Rightarrow> EnvEvaluator None None))"

text \<open>\<open>IS_MULTIPLICATION_RE.test\<close>: the string contains \<open>*\<close> or \<open>/\<close>.\<close>

definition IS_MULTIPLICATION_RE :: "string \<Rightarrow> bool" where
  "IS_MULTIPLICATION_RE s = (CHR ''*'' \<in> set s \<or> CHR ''/'' \<in> set s)"

text \<open>
  The test on the top of the stack: an operator node whose value matches
  \<open>IS_MULTIPLICATION_RE\<close>. An evaluator has no \<open>type\<close> property and fails the test.
\<close>

fun multiplicationOperator :: "Evaluatable \<Rightarrow> string option" where
  "multiplicationOperator (OperatorLiteral v) = (if IS_MULTIPLICATION_RE v then Some v else None)"
| "multiplicationOperator _ = None"

text \<open>
  \<open>Evaluator.evaluatableFor\<close> on a value taken from the stack: an evaluator and a
  number node are returned as they are; an operator node has no \<open>name\<close>, so that the
  \<open>switch\<close> raises.
\<close>

fun evaluatableFor_value :: "Evaluatable \<Rightarrow> error + Evaluatable" where
  "evaluatableFor_value (Node e) = Inr (Node e)"
| "evaluatableFor_value (NumberLiteral n) = Inr (NumberLiteral n)"
| "evaluatableFor_value (IdentLiteral v) = Inl TypeError"
| "evaluatableFor_value (OperatorLiteral v) = Inl TypeError"

text \<open>
  The second loop of the \<open>CalcEvaluator\<close> constructor: while more than two entries
  remain, the first three are replaced by one \<open>OperatorEvaluator\<close>. \<open>None\<close> is the early
  \<open>return\<close> (the middle entry is not an operator).
\<close>

fun secondPass :: "Evaluatable list \<Rightarrow> error + Evaluatable list option" where
  "secondPass (left # operator # right # rest) =
     (case operator of
        OperatorLiteral v \<Rightarrow>
          (case evaluatableFor_value left of
             Inl e \<Rightarrow> Inl e
           | Inr l \<Rightarrow>
               (case evaluatableFor_value right of
                  Inl e \<Rightarrow> Inl e
                | Inr r \<Rightarrow> secondPass (Node (OperatorEvaluator v l r None) # rest)))
      | _ \<Rightarrow> Inr None)"
| "secondPass secondOrderTerms = Inr (Some secondOrderTerms)"

text \<open>The end of the constructor: the inner tree is set when exactly one entry is left.\<close>

definition combine :: "Evaluatable list \<Rightarrow> error + Evaluator" where
  "combine secondOrderTerms =
     (case secondPass secondOrderTerms of
        Inl e \<Rightarrow> Inl e
      | Inr None \<Rightarrow> Inr (CalcEvaluator None None)
      | Inr (Some [x]) \<Rightarrow> Inr (CalcEvaluator (Some x) None)
      | Inr (Some _) \<Rightarrow> Inr (CalcEvaluator None None))"

text \<open>
  \<open>Evaluator.evaluatableFor\<close> on a term of the AST, the \<open>CalcEvaluator\<close> constructor and
  its first loop. The loop takes the terms from the front; the stack \<open>secondOrderTerms\<close>
  grows at its end. \<open>None\<close> is the early \<open>return\<close> (no left operand under a
  multiplicative operator).
\<close>

fun evaluatableFor :: "ExpressionTerm \<Rightarrow> error + Evaluatable"
  and CalcEvaluator_new :: "ExpressionNode list \<Rightarrow> error + Evaluator"
  and firstPass :: "ExpressionTerm list \<Rightarrow> Evaluatable list \<Rightarrow> error + Evaluatable list option"
where
  "evaluatableFor (NumberNode n) = Inr (NumberLiteral n)"
| "evaluatableFor (FunctionNode name arguments) =
     (if name = ''calc'' then
        (case CalcEvaluator_new arguments of Inl e \<Rightarrow> Inl e | Inr c \<Rightarrow> Inr (Node c))
      else if name = ''env'' then Inr (Node (EnvEvaluator_new arguments))
      else Inr (NumberLiteral ZERO))"
| "evaluatableFor (IdentNode v) = Inl TypeError"
| "evaluatableFor (OperatorNode v) = Inl TypeError"
| "CalcEvaluator_new [terms] =
     (case firstPass terms [] of
        Inl e \<Rightarrow> Inl e
      | Inr None \<Rightarrow> Inr (CalcEvaluator None None)
      | Inr (Some secondOrderTerms) \<Rightarrow> combine secondOrderTerms)"
| "CalcEvaluator_new arguments = Inr (CalcEvaluator None None)"
| "firstPass [] secondOrderTerms = Inr (Some secondOrderTerms)"
| "firstPass (term # terms) secondOrderTerms =
     (if secondOrderTerms \<noteq> [] \<and> multiplicationOperator (last secondOrderTerms) \<noteq> None then
        (case rev secondOrderTerms of
           OperatorLiteral v # leftValue # _ \<Rightarrow>
             (case evaluatableFor_value leftValue of
                Inl e \<Rightarrow> Inl e
              | Inr l \<Rightarrow>
                  (case evaluatableFor term of
                     Inl e \<Rightarrow> Inl e
                   | Inr r \<Rightarrow>
                       firstPass terms
                         (butlast (butlast secondOrderTerms) @ [Node (OperatorEvaluator v l r None)])))
         | _ \<Rightarrow> Inr None)
      else
        (case term of
           OperatorNode v \<Rightarrow> firstPass terms (secondOrderTerms @ [OperatorLiteral v])
         | _ \<Rightarrow>
             (case evaluatableFor term of
                Inl e \<Rightarrow> Inl e
              | Inr x \<Rightarrow> firstPass terms (secondOrderTerms @ [x]))))"

subsection \<open>Constancy\<close>

text \<open>
  The getter \<open>isConstant\<close> of the three classes, and the static \<open>Evaluator.isConstant\<close>,
  which is true of everything that is not an evaluator.
\<close>

fun isConstant :: "Evaluator \<Rightarrow> bool"
  and Evaluator_isConstant :: "Evaluatable \<Rightarrow> bool"
where
  "isConstant (EnvEvaluator identNode lv) = False"
| "isConstant (CalcEvaluator evaluator lv) =
     (case evaluator of None \<Rightarrow> True | Some x \<Rightarrow> Evaluator_isConstant x)"
| "isConstant (OperatorEvaluator operator left right lv) =
     (Evaluator_isConstant left \<and> Evaluator_isConstant right)"
| "Evaluator_isConstant (Node e) = isConstant e"
| "Evaluator_isConstant (NumberLiteral n) = True"
| "Evaluator_isConstant (IdentLiteral v) = True"
| "Evaluator_isConstant (OperatorLiteral v) = True"

subsection \<open>Evaluation\<close>

text \<open>
  The browser state that \<open>EnvEvaluator\<close> reads: \<open>window.pageYOffset\<close>,
  \<open>window.innerHeight\<close> and the five heights of \<open>document.body\<close> and
  \<open>document.documentElement\<close>.
\<close>

record Environment =
  pageYOffset :: jsnum
  innerHeight :: jsnum
  body_scrollHeight :: jsnum
  body_offsetHeight :: jsnum
  documentElement_clientHeight :: jsnum
  documentElement_scrollHeight :: jsnum
  documentElement_offsetHeight :: jsnum

text \<open>The \<open>window-scroll-y\<close> case of \<open>EnvEvaluator\<close>.\<close>

definition verticalScrollMax :: "Environment \<Rightarrow> jsnum" where
  "verticalScrollMax env =
     Math_max
       [body_scrollHeight env, body_offsetHeight env, documentElement_clientHeight env,
        documentElement_scrollHeight env, documentElement_offsetHeight env]"

definition windowScrollY :: "Environment \<Rightarrow> NumberNode" where
  "windowScrollY env =
     (let verticalScrollPosition = pageYOffset env;
          scrollY = js_or (js_div verticalScrollPosition
                             (js_sub (verticalScrollMax env) (innerHeight env)))
                      (Finite 0)
      in \<lparr>number = scrollY, unit = None\<rparr>)"

definition EnvEvaluator_evaluate :: "Environment \<Rightarrow> string option \<Rightarrow> NumberNode" where
  "EnvEvaluator_evaluate env identNode =
     (case identNode of
        Some v \<Rightarrow> if v = ''window-scroll-y'' then windowScrollY env else ZERO
      | None \<Rightarrow> ZERO)"

text \<open>
  \<open>leftUnit || rightUnit\<close>: the right unit when the left one is \<open>null\<close> or the empty
  string.
\<close>

definition unit_or :: "string option \<Rightarrow> string option \<Rightarrow> string option" where
  "unit_or leftUnit rightUnit =
     (case leftUnit of None \<Rightarrow> rightUnit | Some u \<Rightarrow> if u = [] then rightUnit else Some u)"

text \<open>
  The body of \<open>OperatorEvaluator\<close>'s evaluation once both operands are evaluated and
  normalized.
\<close>

definition operate :: "string \<Rightarrow> NumberNode \<Rightarrow> NumberNode \<Rightarrow> NumberNode" where
  "operate operator leftNode rightNode =
     (let leftValue = number leftNode; leftUnit = unit leftNode;
          rightValue = number rightNode; rightUnit = unit rightNode
      in if rightUnit \<noteq> None \<and> leftUnit \<noteq> None \<and> rightUnit \<noteq> leftUnit then ZERO
         else
           (let u = unit_or leftUnit rightUnit
            in if operator = ''+'' then \<lparr>number = js_add leftValue rightValue, unit = u\<rparr>
               else if operator = ''-'' then \<lparr>number = js_sub leftValue rightValue, unit = u\<rparr>
               else if operator = ''/'' then \<lparr>number = js_div leftValue rightValue, unit = u\<rparr>
               else if operator = ''*'' then \<lparr>number = js_mul leftValue rightValue, unit = u\<rparr>
               else ZERO))"

fun withLastValue :: "ExpressionTerm \<Rightarrow> Evaluator \<Rightarrow> Evaluator" where
  "withLastValue v (EnvEvaluator identNode lv) = EnvEvaluator identNode (Some v)"
| "withLastValue v (CalcEvaluator evaluator lv) = CalcEvaluator evaluator (Some v)"
| "withLastValue v (OperatorEvaluator operator left right lv) =
     OperatorEvaluator operator left right (Some v)"

text \<open>The test of \<open>evaluate()\<close>: the evaluation step runs when it holds.\<close>

definition recomputes :: "Evaluator \<Rightarrow> bool" where
  "recomputes e = (\<not> isConstant e \<or> lastValue e = None)"

text \<open>
  \<open>evaluate()\<close> of the base class, the evaluation step \<open>[$evaluate]()\<close> of each class and
  the static \<open>Evaluator.evaluate\<close>. Each returns the value and the evaluator with its
  caches updated. \<open>evaluateCounted\<close> is \<open>evaluate()\<close> with a spy on the evaluation step:
  its third result is the number of times the call ran \<open>this[$evaluate]()\<close> on the
  evaluator itself, 1 in the branch that assigns \<open>$lastValue\<close> and 0 in the other. The
  unit normalizer \<open>normalizeUnit\<close> of \<open>conversions\<close> and the browser state are
  parameters. The normalizer is taken with its declared result type: whatever an operand
  evaluated to, it returns a number node.
\<close>

function evaluateCounted :: "(ExpressionTerm \<Rightarrow> NumberNode) \<Rightarrow> Environment \<Rightarrow> Evaluator
    \<Rightarrow> ExpressionTerm \<times> Evaluator \<times> nat"
  and evaluateStep :: "(ExpressionTerm \<Rightarrow> NumberNode) \<Rightarrow> Environment \<Rightarrow> Evaluator
    \<Rightarrow> ExpressionTerm \<times> Evaluator"
  and Evaluator_evaluate :: "(ExpressionTerm \<Rightarrow> NumberNode) \<Rightarrow> Environment \<Rightarrow> Evaluatable
    \<Rightarrow> ExpressionTerm \<times> Evaluatable"
where
  "evaluateCounted normalizeUnit env e =
     (if recomputes e then
        (case evaluateStep normalizeUnit env e of (v, e') \<Rightarrow> (v, withLastValue v e', 1))
      else (the (lastValue e), e, 0))"
| "evaluateStep normalizeUnit env (EnvEvaluator identNode lv) =
     (NumberNode (EnvEvaluator_evaluate env identNode), EnvEvaluator identNode lv)"
| "evaluateStep normalizeUnit env (CalcEvaluator evaluator lv) =
     (case evaluator of
        None \<Rightarrow> (NumberNode ZERO, CalcEvaluator None lv)
      | Some x \<Rightarrow>
          (case Evaluator_evaluate normalizeUnit env x of
             (v, x') \<Rightarrow> (v, CalcEvaluator (Some x') lv)))"
| "evaluateStep normalizeUnit env (OperatorEvaluator operator left right lv) =
     (case Evaluator_evaluate normalizeUnit env left of
        (leftResult, left') \<Rightarrow>
          (case Evaluator_evaluate normalizeUnit env right of
             (rightResult, right') \<Rightarrow>
               (NumberNode (operate operator (normalizeUnit leftResult) (normalizeUnit rightResult)),
                OperatorEvaluator operator left' right' lv)))"
| "Evaluator_evaluate normalizeUnit env (Node e) =
     (case evaluateCounted normalizeUnit env e of (v, e', k) \<Rightarrow> (v, Node e'))"
| "Evaluator_evaluate normalizeUnit env (NumberLiteral n) = (NumberNode n, NumberLiteral n)"
| "Evaluator_evaluate normalizeUnit env (IdentLiteral v) = (IdentNode v, IdentLiteral v)"
| "Evaluator_evaluate normalizeUnit env (OperatorLiteral v) = (OperatorNode v, OperatorLiteral v)"
  by pat_completeness auto
termination
  by (relation "measure (\<lambda>x. case x of
        Inl (_, _, e) \<Rightarrow> 2 * size e + 1
      | Inr (Inl (_, _, e)) \<Rightarrow> 2 * size e
      | Inr (Inr (_, _, x)) \<Rightarrow> 2 * size x)") auto

text \<open>\<open>evaluate()\<close> as its caller sees it: the value, and the evaluator afterwards.\<close>

definition evaluate :: "(ExpressionTerm \<Rightarrow> NumberNode) \<Rightarrow> Environment \<Rightarrow> Evaluator
    \<Rightarrow> ExpressionTerm \<times> Evaluator" where
  "evaluate normalizeUnit env e =
     (case evaluateCounted normalizeUnit env e of (v, e', k) \<Rightarrow> (v, e'))"

subsection \<open>Spherical values\<close>

text \<open>
  \<open>SphericalStyle\<close> is \<open>[number, number, number | string]\<close>. \<open>SphericalEvaluator\<close> has
  the slots \<open>$theta\<close>, \<open>$phi\<close> and \<open>$radius\<close> and a cache of its own result type.
\<close>

datatype Radius = RadiusNumber jsnum | RadiusString string

type_synonym SphericalStyle = "jsnum \<times> jsnum \<times> Radius"

datatype SphericalEvaluator =
  SphericalEvaluator Evaluatable Evaluatable Evaluatable "SphericalStyle option"

text \<open>
  The constructor: the first three terms of the first expression, each replaced by its
  default when it is missing. An identifier as radius is stored as it is.
\<close>

definition termAt :: "ExpressionTerm list \<Rightarrow> nat \<Rightarrow> ExpressionTerm option" where
  "termAt terms i = (if i < length terms then Some (terms ! i) else None)"

definition SphericalEvaluator_new :: "ExpressionNode list \<Rightarrow> error + SphericalEvaluator" where
  "SphericalEvaluator_new expressions =
     (let terms = (case expressions of [] \<Rightarrow> [] | expression # _ \<Rightarrow> expression);
          thetaTerm = (case termAt terms 0 of None \<Rightarrow> NumberNode ZERO | Some t \<Rightarrow> t);
          phiTerm = (case termAt terms 1 of None \<Rightarrow> NumberNode ZERO | Some t \<Rightarrow> t);
          radiusTerm = (case termAt terms 2 of None \<Rightarrow> AUTO | Some t \<Rightarrow> t)
      in case evaluatableFor thetaTerm of
           Inl e \<Rightarrow> Inl e
         | Inr theta \<Rightarrow>
             (case evaluatableFor phiTerm of
                Inl e \<Rightarrow> Inl e
              | Inr phi \<Rightarrow>
                  (case radiusTerm of
                     IdentNode v \<Rightarrow> Inr (SphericalEvaluator theta phi (IdentLiteral v) None)
                   | _ \<Rightarrow>
                       (case evaluatableFor radiusTerm of
                          Inl e \<Rightarrow> Inl e
                        | Inr radius \<Rightarrow> Inr (SphericalEvaluator theta phi radius None)))))"

fun SphericalEvaluator_isConstant :: "SphericalEvaluator \<Rightarrow> bool" where
  "SphericalEvaluator_isConstant (SphericalEvaluator theta phi radius lv) =
     (Evaluator_isConstant theta \<and> Evaluator_isConstant phi \<and> Evaluator_isConstant radius)"

fun SphericalEvaluator_lastValue :: "SphericalEvaluator \<Rightarrow> SphericalStyle option" where
  "SphericalEvaluator_lastValue (SphericalEvaluator theta phi radius lv) = lv"

text \<open>The evaluation step: the radius is evaluated first.\<close>

fun SphericalEvaluator_evaluateStep :: "(ExpressionTerm \<Rightarrow> NumberNode) \<Rightarrow> Environment
    \<Rightarrow> SphericalEvaluator \<Rightarrow> SphericalStyle \<times> SphericalEvaluator" where
  "SphericalEvaluator_evaluateStep normalizeUnit env (SphericalEvaluator theta phi radius lv) =
     (case Evaluator_evaluate normalizeUnit env radius of
        (radiusNode, radius') \<Rightarrow>
          (case Evaluator_evaluate normalizeUnit env theta of
             (thetaNode, theta') \<Rightarrow>
               (case Evaluator_evaluate normalizeUnit env phi of
                  (phiNode, phi') \<Rightarrow>
                    ((number (normalizeUnit thetaNode),
                      number (normalizeUnit phiNode),
                      (case radiusNode of
                         IdentNode v \<Rightarrow> RadiusString v
                       | _ \<Rightarrow> RadiusNumber (number (normalizeUnit radiusNode)))),
                     SphericalEvaluator theta' phi' radius' lv))))"

definition SphericalEvaluator_recomputes :: "SphericalEvaluator \<Rightarrow> bool" where
  "SphericalEvaluator_recomputes s =
     (\<not> SphericalEvaluator_isConstant s \<or> SphericalEvaluator_lastValue s = None)"

text \<open>
  \<open>evaluate()\<close> of the base class, on a \<open>SphericalEvaluator\<close>: with the count of the
  runs of the evaluation step, and as its caller sees it.
\<close>

definition SphericalEvaluator_evaluateCounted :: "(ExpressionTerm \<Rightarrow> NumberNode) \<Rightarrow> Environment
    \<Rightarrow> SphericalEvaluator \<Rightarrow> SphericalStyle \<times> SphericalEvaluator \<times> nat" where
  "SphericalEvaluator_evaluateCounted normalizeUnit env s =
     (if SphericalEvaluator_recomputes s then
        (case SphericalEvaluator_evaluateStep normalizeUnit env s of
           (v, SphericalEvaluator theta phi radius lv) \<Rightarrow>
             (v, SphericalEvaluator theta phi radius (Some v), 1))
      else (the (SphericalEvaluator_lastValue s), s, 0))"

definition SphericalEvaluator_evaluate :: "(ExpressionTerm \<Rightarrow> NumberNode) \<Rightarrow> Environment
    \<Rightarrow> SphericalEvaluator \<Rightarrow> SphericalStyle \<times> SphericalEvaluator" where
  "SphericalEvaluator_evaluate normalizeUnit env s =
     (case SphericalEvaluator_evaluateCounted normalizeUnit env s of (v, s', k) \<Rightarrow> (v, s'))"

subsection \<open>The unit normalizer\<close>

text \<open>
  Modelled from the spec: \<open>normalizeUnit\<close> of \<open>conversions\<close>, which is not among the
  sources. The spec gives it as a pure function from number nodes to number nodes that
  maps \<open>deg\<close> to \<open>rad\<close> and \<open>cm\<close> and \<open>mm\<close> to \<open>m\<close> and leaves \<open>rad\<close>, \<open>m\<close> and the
  missing unit unchanged. The spec says nothing of other units; the model leaves them
  unchanged as well.
\<close>

text \<open>\<open>Math.PI\<close>, the double nearest to the circle constant, as the exact real it is.\<close>

definition Math_PI :: real where
  "Math_PI = 884279719003555 / 281474976710656"

definition normalizeUnit :: "NumberNode \<Rightarrow> NumberNode" where
  "normalizeUnit node =
     (if unit node = Some ''deg'' then
        \<lparr>number = js_div (js_mul (number node) (Finite Math_PI)) (Finite 180), unit = Some ''rad''\<rparr>
      else if unit node = Some ''cm'' then
        \<lparr>number = js_div (number node) (Finite 100), unit = Some ''m''\<rparr>
      else if unit node = Some ''mm'' then
        \<lparr>number = js_div (number node) (Finite 1000), unit = Some ''m''\<rparr>
      else node)"

text \<open>
  A normalizer, as the evaluators call it on whatever an operand evaluated to, agrees
  with the spec when it is \<open>normalizeUnit\<close> on every number node.
\<close>

definition normalizes :: "(ExpressionTerm \<Rightarrow> NumberNode) \<Rightarrow> bool" where
  "normalizes f = (\<forall>n. f (NumberNode n) = normalizeUnit n)"

text \<open>One such normalizer, for evaluating examples.\<close>

fun normalizeTerm :: "ExpressionTerm \<Rightarrow> NumberNode" where
  "normalizeTerm (NumberNode n) = normalizeUnit n"
| "normalizeTerm _ = ZERO"

section \<open>Notions used by the properties\<close>

text \<open>
  A sequence of calls of \<open>evaluate()\<close> on one evaluator, the browser state possibly
  changing from call to call: for each call, the value it returned and the number of
  runs of the evaluation step that the call itself reported.
\<close>

fun evaluateCalls :: "(ExpressionTerm \<Rightarrow> NumberNode) \<Rightarrow> Environment list \<Rightarrow> Evaluator
    \<Rightarrow> (ExpressionTerm \<times> nat) list" where
  "evaluateCalls f [] e = []"
| "evaluateCalls f (env # envs) e =
     (case evaluateCounted f env e of (v, e', k) \<Rightarrow> (v, k) # evaluateCalls f envs e')"

fun SphericalEvaluator_evaluateCalls :: "(ExpressionTerm \<Rightarrow> NumberNode) \<Rightarrow> Environment list
    \<Rightarrow> SphericalEvaluator \<Rightarrow> (SphericalStyle \<times> nat) list" where
  "SphericalEvaluator_evaluateCalls f [] s = []"
| "SphericalEvaluator_evaluateCalls f (env # envs) s =
     (case SphericalEvaluator_evaluateCounted f env s of
        (v, s', k) \<Rightarrow> (v, k) # SphericalEvaluator_evaluateCalls f envs s')"

text \<open>
  What the evaluation step alone computes when it is run once for every browser state of
  a sequence, each result assigned to \<open>$lastValue\<close>: no test of constancy, no use of the
  cache of the evaluator itself.
\<close>

fun stepValues :: "(ExpressionTerm \<Rightarrow> NumberNode) \<Rightarrow> Environment list \<Rightarrow> Evaluator
    \<Rightarrow> ExpressionTerm list" where
  "stepValues f [] e = []"
| "stepValues f (env # envs) e =
     (case evaluateStep f env e of (v, e') \<Rightarrow> v # stepValues f envs (withLastValue v e'))"

fun SphericalEvaluator_withLastValue :: "SphericalStyle \<Rightarrow> SphericalEvaluator \<Rightarrow> SphericalEvaluator"
where
  "SphericalEvaluator_withLastValue v (SphericalEvaluator theta phi radius lv) =
     SphericalEvaluator theta phi radius (Some v)"

fun SphericalEvaluator_stepValues :: "(ExpressionTerm \<Rightarrow> NumberNode) \<Rightarrow> Environment list
    \<Rightarrow> SphericalEvaluator \<Rightarrow> SphericalStyle list" where
  "SphericalEvaluator_stepValues f [] s = []"
| "SphericalEvaluator_stepValues f (env # envs) s =
     (case SphericalEvaluator_evaluateStep f env s of
        (v, SphericalEvaluator theta phi radius lv) \<Rightarrow>
          v # SphericalEvaluator_stepValues f envs (SphericalEvaluator theta phi radius (Some v)))"

text \<open>The evaluators reachable from an evaluator through its slots, itself included.\<close>

fun reachable :: "Evaluator \<Rightarrow> Evaluator list"
  and reachableFrom :: "Evaluatable \<Rightarrow> Evaluator list"
where
  "reachable (EnvEvaluator identNode lv) = [EnvEvaluator identNode lv]"
| "reachable (CalcEvaluator evaluator lv) =
     CalcEvaluator evaluator lv # (case evaluator of None \<Rightarrow> [] | Some x \<Rightarrow> reachableFrom x)"
| "reachable (OperatorEvaluator operator left right lv) =
     OperatorEvaluator operator left right lv # reachableFrom left @ reachableFrom right"
| "reachableFrom (Node e) = reachable e"
| "reachableFrom (NumberLiteral n) = []"
| "reachableFrom (IdentLiteral v) = []"
| "reachableFrom (OperatorLiteral v) = []"

fun isEnvEvaluator :: "Evaluator \<Rightarrow> bool" where
  "isEnvEvaluator (EnvEvaluator identNode lv) = True"
| "isEnvEvaluator _ = False"

text \<open>The units of the two families, and no unit.\<close>

definition supportedUnit :: "string option \<Rightarrow> bool" where
  "supportedUnit u = (u \<in> {None, Some ''deg'', Some ''rad'', Some ''m'', Some ''cm'', Some ''mm''})"

subsection \<open>The inputs of the test suite\<close>

text \<open>\<open>numberNode\<close> of the test helpers, for a finite number.\<close>

definition numberNode :: "real \<Rightarrow> string option \<Rightarrow> NumberNode" where
  "numberNode x u = \<lparr>number = Finite x, unit = u\<rparr>"

text \<open>The terms of \<open>calc(1 + 2*2.5 - -2/-1)\<close> and the tree they are reduced to.\<close>

definition complexAlgebra :: ExpressionNode where
  "complexAlgebra =
     [NumberNode (numberNode 1 None), OperatorNode ''+'', NumberNode (numberNode 2 None),
      OperatorNode ''*'', NumberNode (numberNode 2.5 None), OperatorNode ''-'',
      NumberNode (numberNode (- 2) None), OperatorNode ''/'', NumberNode (numberNode (- 1) None)]"

definition complexAlgebraTree :: Evaluatable where
  "complexAlgebraTree =
     Node (OperatorEvaluator ''-''
       (Node (OperatorEvaluator ''+''
          (NumberLiteral (numberNode 1 None))
          (Node (OperatorEvaluator ''*''
             (NumberLiteral (numberNode 2 None)) (NumberLiteral (numberNode 2.5 None)) None))
          None))
       (Node (OperatorEvaluator ''/''
          (NumberLiteral (numberNode (- 2) None)) (NumberLiteral (numberNode (- 1) None)) None))
       None)"

text \<open>The terms \<open>1 2 3\<close>, which no operator separates.\<close>

definition threeNumbers :: ExpressionNode where
  "threeNumbers =
     [NumberNode (numberNode 1 None), NumberNode (numberNode 2 None), NumberNode (numberNode 3 None)]"

text \<open>\<open>calc(1 + calc(1) + env(window-scroll-y))\<close>, the non-constant example.\<close>

definition nestedEnv :: ExpressionNode where
  "nestedEnv =
     [NumberNode (numberNode 1 None), OperatorNode ''+'',
      FunctionNode ''calc'' [[NumberNode (numberNode 1 None)]], OperatorNode ''+'',
      FunctionNode ''env'' [[IdentNode ''window-scroll-y'']]]"

definition nestedEnvTree :: Evaluatable where
  "nestedEnvTree =
     Node (OperatorEvaluator ''+''
       (Node (OperatorEvaluator ''+''
          (NumberLiteral (numberNode 1 None))
          (Node (CalcEvaluator (Some (NumberLiteral (numberNode 1 None))) None))
          None))
       (Node (EnvEvaluator (Some ''window-scroll-y'') None))
       None)"

text \<open>
  Evaluators for sequences of calls: \<open>calc(env(window-scroll-y))\<close>, an evaluator without
  inner tree whose cache holds 7, the spherical evaluator of no expression and one whose
  azimuth is \<open>env(window-scroll-y)\<close>.
\<close>

definition calcEnv :: Evaluator where
  "calcEnv = CalcEvaluator (Some (Node (EnvEvaluator (Some ''window-scroll-y'') None))) None"

definition cachedSeven :: Evaluator where
  "cachedSeven = CalcEvaluator None (Some (NumberNode (numberNode 7 None)))"

definition defaultSpherical :: SphericalEvaluator where
  "defaultSpherical =
     SphericalEvaluator (NumberLiteral ZERO) (NumberLiteral ZERO) (IdentLiteral ''auto'') None"

definition scrollSpherical :: SphericalEvaluator where
  "scrollSpherical =
     SphericalEvaluator (Node (EnvEvaluator (Some ''window-scroll-y'') None)) (NumberLiteral ZERO)
       (IdentLiteral ''auto'') None"

text \<open>The spherical expression \<open>1rad 180deg 100cm\<close>.\<close>

definition basicSpherical :: ExpressionNode where
  "basicSpherical =
     [NumberNode (numberNode 1 (Some ''rad'')), NumberNode (numberNode 180 (Some ''deg'')),
      NumberNode (numberNode 100 (Some ''cm''))]"

text \<open>
  A page of height 20000 in a window of height 500, scrolled to 10000; and a page that
  fits its window of height 500, with a scroll position of 100.
\<close>

definition scrolledPage :: Environment where
  "scrolledPage =
     \<lparr>pageYOffset = Finite 10000, innerHeight = Finite 500, body_scrollHeight = Finite 20000,
      body_offsetHeight = Finite 20000, documentElement_clientHeight = Finite 500,
      documentElement_scrollHeight = Finite 20000, documentElement_offsetHeight = Finite 20000\<rparr>"

definition fittingPage :: Environment where
  "fittingPage =
     \<lparr>pageYOffset = Finite 100, innerHeight = Finite 500, body_scrollHeight = Finite 500,
      body_offsetHeight = Finite 500, documentElement_clientHeight = Finite 500,
      documentElement_scrollHeight = Finite 500, documentElement_offsetHeight = Finite 500\<rparr>"

section \<open>Properties\<close>

subsection \<open>Auxiliary facts\<close>

text \<open>The two branches of \<open>evaluate()\<close>, without the count.\<close>

lemma evaluate_unfold [simp]:
  "evaluate f env e =
     (if recomputes e then (case evaluateStep f env e of (v, e') \<Rightarrow> (v, withLastValue v e'))
      else (the (lastValue e), e))"
  by (simp add: evaluate_def split: prod.splits)

lemma SphericalEvaluator_evaluate_unfold:
  "SphericalEvaluator_evaluate f env s =
     (if SphericalEvaluator_recomputes s then
        (case SphericalEvaluator_evaluateStep f env s of
           (v, SphericalEvaluator theta phi radius lv) \<Rightarrow>
             (v, SphericalEvaluator theta phi radius (Some v)))
      else (the (SphericalEvaluator_lastValue s), s))"
  by (simp add: SphericalEvaluator_evaluate_def SphericalEvaluator_evaluateCounted_def
      split: prod.splits SphericalEvaluator.splits)

lemma normalizes_normalizeTerm: "normalizes normalizeTerm"
  by (simp add: normalizes_def)

lemma normalizes_unitless:
  "normalizes f \<Longrightarrow> f (NumberNode (numberNode x None)) = numberNode x None"
  by (simp add: normalizes_def normalizeUnit_def numberNode_def)

lemma operate_unitless:
  "operate ''+'' (numberNode a None) (numberNode b None) = numberNode (a + b) None"
  "operate ''-'' (numberNode a None) (numberNode b None) = numberNode (a - b) None"
  "operate ''*'' (numberNode a None) (numberNode b None) = numberNode (a * b) None"
  "b \<noteq> 0 \<Longrightarrow> operate ''/'' (numberNode a None) (numberNode b None) = numberNode (a / b) None"
  by (simp_all add: operate_def numberNode_def unit_or_def js_sub_def)

lemma normalizeUnit_unitless: "normalizeUnit (numberNode x None) = numberNode x None"
  by (simp add: normalizeUnit_def numberNode_def)

subsection \<open>Exceptions\<close>

text \<open>
  On the values that the stack holds, \<open>evaluatableFor_value\<close> is \<open>evaluatableFor\<close> on
  the node they stand for.
\<close>

lemma evaluatableFor_value_term:
  "evaluatableFor_value (NumberLiteral n) = evaluatableFor (NumberNode n)"
  "evaluatableFor_value (IdentLiteral v) = evaluatableFor (IdentNode v)"
  "evaluatableFor_value (OperatorLiteral v) = evaluatableFor (OperatorNode v)"
  by simp_all

text \<open>A number is returned as it is, and a function that is neither \<open>calc\<close> nor \<open>env\<close>
  gives the zero node.\<close>

lemma evaluatableFor_degrades:
  "evaluatableFor (NumberNode n) = Inr (NumberLiteral n)"
  "name \<noteq> ''calc'' \<Longrightarrow> name \<noteq> ''env'' \<Longrightarrow>
   evaluatableFor (FunctionNode name arguments) = Inr (NumberLiteral ZERO)"
  "evaluatableFor (FunctionNode ''env'' arguments) = Inr (Node (EnvEvaluator_new arguments))"
  by simp_all

text \<open>
  C1 says that \<open>evaluatableFor\<close> returns a value for every term, identifiers and
  operators included, and that no construction raises. The code reads
  \<open>node.name.value\<close> of every node that is neither an evaluator nor a number: on an
  identifier or an operator, which have no \<open>name\<close>, that read raises a \<open>TypeError\<close>, and
  the exception leaves the constructors of \<open>CalcEvaluator\<close> and \<open>SphericalEvaluator\<close>
  that meet such a term.
\<close>

theorem evaluatableFor_throws:
  "evaluatableFor (IdentNode ''auto'') = Inl TypeError
   \<and> evaluatableFor (OperatorNode ''+'') = Inl TypeError
   \<and> CalcEvaluator_new [[NumberNode (numberNode 1 None), OperatorNode ''+'', IdentNode ''auto'']]
       = Inl TypeError
   \<and> SphericalEvaluator_new [[IdentNode ''auto'']] = Inl TypeError"
  by (simp add: SphericalEvaluator_new_def termAt_def)

subsection \<open>Precedence\<close>

text \<open>
  C3: the terms of \<open>calc(1 + 2*2.5 - -2/-1)\<close> are reduced to the tree
  \<open>(1 + (2 * 2.5)) - (-2 / -1)\<close>, the two multiplicative operators collapsed with their
  neighbours before the additive ones are folded from the left, and the evaluator
  evaluates to the number 4 without unit, under every normalizer that follows the spec.
\<close>

theorem calc_complexAlgebra:
  "CalcEvaluator_new [complexAlgebra] = Inr (CalcEvaluator (Some complexAlgebraTree) None)
   \<and> (normalizes f \<longrightarrow>
        fst (evaluate f env (CalcEvaluator (Some complexAlgebraTree) None))
          = NumberNode (numberNode 4 None))"
proof
  show "CalcEvaluator_new [complexAlgebra] = Inr (CalcEvaluator (Some complexAlgebraTree) None)"
    by (simp add: complexAlgebra_def complexAlgebraTree_def IS_MULTIPLICATION_RE_def combine_def)
  show "normalizes f \<longrightarrow>
        fst (evaluate f env (CalcEvaluator (Some complexAlgebraTree) None))
          = NumberNode (numberNode 4 None)"
    by (simp add: complexAlgebraTree_def recomputes_def normalizes_unitless operate_unitless)
qed

theorem calc_complexAlgebra_witness:
  "normalizes normalizeTerm
   \<and> CalcEvaluator_new [complexAlgebra] = Inr (CalcEvaluator (Some complexAlgebraTree) None)
   \<and> fst (evaluate normalizeTerm scrolledPage (CalcEvaluator (Some complexAlgebraTree) None))
       = NumberNode \<lparr>number = Finite 4, unit = None\<rparr>"
  using calc_complexAlgebra [of normalizeTerm scrolledPage] normalizes_normalizeTerm
  by (simp add: numberNode_def)

subsection \<open>Caching\<close>

text \<open>
  Evaluation changes caches only: it leaves the constancy of every evaluator as it is.
  A constant evaluator with a cached value returns it, stays as it is and does not run
  its step; every other evaluator runs its step once, returns the value of the step and
  caches it.
\<close>

lemma isConstant_withLastValue: "isConstant (withLastValue v e) = isConstant e"
  by (cases e) simp_all

lemma lastValue_withLastValue: "lastValue (withLastValue v e) = Some v"
  by (cases e) simp_all

lemma isConstant_evaluated:
  "isConstant (fst (snd (evaluateCounted f env e))) = isConstant e"
  "isConstant (snd (evaluateStep f env e)) = isConstant e"
  "Evaluator_isConstant (snd (Evaluator_evaluate f env x)) = Evaluator_isConstant x"
proof (induction f env e and f env e and f env x
    rule: evaluateCounted_evaluateStep_Evaluator_evaluate.induct)
  case (1 normalizeUnit env e)
  then show ?case
    by (auto simp: isConstant_withLastValue split: prod.splits)
next
  case (3 normalizeUnit env evaluator lv)
  then show ?case by (cases evaluator) (auto split: prod.splits)
next
  case (4 normalizeUnit env operator left right lv)
  then show ?case by (auto split: prod.splits)
next
  case (5 normalizeUnit env e)
  then show ?case by (auto split: prod.splits)
qed simp_all

lemma evaluateCounted_cached:
  "isConstant e \<Longrightarrow> lastValue e = Some v \<Longrightarrow> evaluateCounted f env e = (v, e, 0)"
  by (simp add: recomputes_def)

lemma evaluateCounted_recomputed:
  "recomputes e \<Longrightarrow>
   evaluateCounted f env e =
     (fst (evaluateStep f env e),
      withLastValue (fst (evaluateStep f env e)) (snd (evaluateStep f env e)), 1)"
  by (simp split: prod.splits)

lemma evaluateCalls_cached:
  "isConstant e \<Longrightarrow> lastValue e = Some v \<Longrightarrow>
   evaluateCalls f envs e = replicate (length envs) (v, 0)"
  by (induction envs) (simp_all add: evaluateCounted_cached del: evaluateCounted.simps)

lemma evaluateCalls_constant:
  assumes "isConstant e" and "lastValue e = None"
  shows "evaluateCalls f (env # envs) e =
    (fst (evaluateStep f env e), 1) # replicate (length envs) (fst (evaluateStep f env e), 0)"
proof -
  have r: "recomputes e" using assms by (simp add: recomputes_def)
  have c: "isConstant (withLastValue (fst (evaluateStep f env e)) (snd (evaluateStep f env e)))"
    using assms(1) by (simp add: isConstant_withLastValue isConstant_evaluated(2))
  show ?thesis
    by (simp add: evaluateCounted_recomputed [OF r]
        evaluateCalls_cached [OF c lastValue_withLastValue] del: evaluateCounted.simps)
qed

lemma evaluateCalls_dynamic:
  "\<not> isConstant e \<Longrightarrow> evaluateCalls f envs e = map (\<lambda>v. (v, 1)) (stepValues f envs e)"
proof (induction envs arbitrary: e)
  case Nil
  then show ?case by simp
next
  case (Cons env envs)
  have r: "recomputes e" using Cons.prems by (simp add: recomputes_def)
  have "\<not> isConstant (withLastValue (fst (evaluateStep f env e)) (snd (evaluateStep f env e)))"
    using Cons.prems by (simp add: isConstant_withLastValue isConstant_evaluated(2))
  then have "evaluateCalls f envs
      (withLastValue (fst (evaluateStep f env e)) (snd (evaluateStep f env e)))
    = map (\<lambda>v. (v, 1)) (stepValues f envs
        (withLastValue (fst (evaluateStep f env e)) (snd (evaluateStep f env e))))"
    by (rule Cons.IH)
  then show ?case
    by (simp add: evaluateCounted_recomputed [OF r] split: prod.splits
        del: evaluateCounted.simps)
qed

text \<open>The same facts of \<open>SphericalEvaluator\<close>.\<close>

lemma Evaluator_isConstant_evaluated:
  "Evaluator_evaluate f env x = (v, x') \<Longrightarrow> Evaluator_isConstant x' = Evaluator_isConstant x"
  using isConstant_evaluated(3) [of f env x] by simp

lemma SphericalEvaluator_isConstant_evaluateStep:
  "SphericalEvaluator_isConstant (snd (SphericalEvaluator_evaluateStep f env s)) =
   SphericalEvaluator_isConstant s"
  by (cases s) (auto split: prod.splits dest: Evaluator_isConstant_evaluated)

lemma SphericalEvaluator_isConstant_withLastValue:
  "SphericalEvaluator_isConstant (SphericalEvaluator_withLastValue v s) =
   SphericalEvaluator_isConstant s"
  by (cases s) simp

lemma SphericalEvaluator_lastValue_withLastValue:
  "SphericalEvaluator_lastValue (SphericalEvaluator_withLastValue v s) = Some v"
  by (cases s) simp

lemma SphericalEvaluator_evaluateCounted_cached:
  "SphericalEvaluator_isConstant s \<Longrightarrow> SphericalEvaluator_lastValue s = Some v \<Longrightarrow>
   SphericalEvaluator_evaluateCounted f env s = (v, s, 0)"
  by (simp add: SphericalEvaluator_evaluateCounted_def SphericalEvaluator_recomputes_def)

lemma SphericalEvaluator_evaluateCounted_recomputed:
  "SphericalEvaluator_recomputes s \<Longrightarrow>
   SphericalEvaluator_evaluateCounted f env s =
     (fst (SphericalEvaluator_evaluateStep f env s),
      SphericalEvaluator_withLastValue (fst (SphericalEvaluator_evaluateStep f env s))
        (snd (SphericalEvaluator_evaluateStep f env s)), 1)"
  by (simp add: SphericalEvaluator_evaluateCounted_def
      split: prod.splits SphericalEvaluator.splits)

lemma SphericalEvaluator_stepValues_Cons:
  "SphericalEvaluator_stepValues f (env # envs) s =
     fst (SphericalEvaluator_evaluateStep f env s)
       # SphericalEvaluator_stepValues f envs
           (SphericalEvaluator_withLastValue (fst (SphericalEvaluator_evaluateStep f env s))
              (snd (SphericalEvaluator_evaluateStep f env s)))"
  by (simp split: prod.splits SphericalEvaluator.splits)

lemma SphericalEvaluator_evaluateCalls_cached:
  "SphericalEvaluator_isConstant s \<Longrightarrow> SphericalEvaluator_lastValue s = Some v \<Longrightarrow>
   SphericalEvaluator_evaluateCalls f envs s = replicate (length envs) (v, 0)"
  by (induction envs) (simp_all add: SphericalEvaluator_evaluateCounted_cached)

lemma SphericalEvaluator_evaluateCalls_constant:
  assumes "SphericalEvaluator_isConstant s" and "SphericalEvaluator_lastValue s = None"
  shows "SphericalEvaluator_evaluateCalls f (env # envs) s =
    (fst (SphericalEvaluator_evaluateStep f env s), 1)
      # replicate (length envs) (fst (SphericalEvaluator_evaluateStep f env s), 0)"
proof -
  have r: "SphericalEvaluator_recomputes s"
    using assms by (simp add: SphericalEvaluator_recomputes_def)
  have c: "SphericalEvaluator_isConstant
      (SphericalEvaluator_withLastValue (fst (SphericalEvaluator_evaluateStep f env s))
         (snd (SphericalEvaluator_evaluateStep f env s)))"
    using assms(1)
    by (simp add: SphericalEvaluator_isConstant_withLastValue
        SphericalEvaluator_isConstant_evaluateStep)
  show ?thesis
    by (simp add: SphericalEvaluator_evaluateCounted_recomputed [OF r]
        SphericalEvaluator_evaluateCalls_cached [OF c SphericalEvaluator_lastValue_withLastValue])
qed

lemma SphericalEvaluator_evaluateCalls_dynamic:
  "\<not> SphericalEvaluator_isConstant s \<Longrightarrow>
   SphericalEvaluator_evaluateCalls f envs s
     = map (\<lambda>v. (v, 1)) (SphericalEvaluator_stepValues f envs s)"
proof (induction envs arbitrary: s)
  case Nil
  then show ?case by simp
next
  case (Cons env envs)
  have r: "SphericalEvaluator_recomputes s"
    using Cons.prems by (simp add: SphericalEvaluator_recomputes_def)
  have "\<not> SphericalEvaluator_isConstant
      (SphericalEvaluator_withLastValue (fst (SphericalEvaluator_evaluateStep f env s))
         (snd (SphericalEvaluator_evaluateStep f env s)))"
    using Cons.prems
    by (simp add: SphericalEvaluator_isConstant_withLastValue
        SphericalEvaluator_isConstant_evaluateStep)
  then have "SphericalEvaluator_evaluateCalls f envs
      (SphericalEvaluator_withLastValue (fst (SphericalEvaluator_evaluateStep f env s))
         (snd (SphericalEvaluator_evaluateStep f env s)))
    = map (\<lambda>v. (v, 1)) (SphericalEvaluator_stepValues f envs
        (SphericalEvaluator_withLastValue (fst (SphericalEvaluator_evaluateStep f env s))
           (snd (SphericalEvaluator_evaluateStep f env s))))"
    by (rule Cons.IH)
  then show ?case
    by (simp only: SphericalEvaluator_evaluateCalls.simps SphericalEvaluator_stepValues_Cons
        SphericalEvaluator_evaluateCounted_recomputed [OF r] prod.case list.map)
qed

text \<open>
  C2: each call of \<open>evaluate()\<close> reports whether it ran the evaluation step. Over any
  sequence of calls, whatever the browser state at each call, a constant evaluator that
  has no cached value yet runs the step in the first call and in no later one, and every
  call returns the value that the step computed in the first; a constant evaluator that
  has a cached value returns it in every call and never runs the step; an evaluator that
  is not constant runs the step in every call and returns what the step computes in that
  call. What \<open>evaluate()\<close> returns is the value so reported. The same holds of
  \<open>SphericalEvaluator\<close>, which inherits \<open>evaluate()\<close>.
\<close>

theorem evaluate_caching:
  "(isConstant e \<and> lastValue e = None \<longrightarrow>
      evaluateCalls f (env # envs) e
        = (fst (evaluateStep f env e), 1) # replicate (length envs) (fst (evaluateStep f env e), 0))
   \<and> (isConstant e \<and> lastValue e = Some v \<longrightarrow>
      evaluateCalls f envs e = replicate (length envs) (v, 0))
   \<and> (\<not> isConstant e \<longrightarrow>
      evaluateCalls f envs e = map (\<lambda>v. (v, 1)) (stepValues f envs e))
   \<and> evaluate f env e = (fst (evaluateCounted f env e), fst (snd (evaluateCounted f env e)))
   \<and> (SphericalEvaluator_isConstant s \<and> SphericalEvaluator_lastValue s = None \<longrightarrow>
      SphericalEvaluator_evaluateCalls f (env # envs) s
        = (fst (SphericalEvaluator_evaluateStep f env s), 1)
            # replicate (length envs) (fst (SphericalEvaluator_evaluateStep f env s), 0))
   \<and> (SphericalEvaluator_isConstant s \<and> SphericalEvaluator_lastValue s = Some w \<longrightarrow>
      SphericalEvaluator_evaluateCalls f envs s = replicate (length envs) (w, 0))
   \<and> (\<not> SphericalEvaluator_isConstant s \<longrightarrow>
      SphericalEvaluator_evaluateCalls f envs s
        = map (\<lambda>v. (v, 1)) (SphericalEvaluator_stepValues f envs s))
   \<and> SphericalEvaluator_evaluate f env s
       = (fst (SphericalEvaluator_evaluateCounted f env s),
          fst (snd (SphericalEvaluator_evaluateCounted f env s)))"
proof (intro conjI impI)
  show "evaluateCalls f (env # envs) e
        = (fst (evaluateStep f env e), 1) # replicate (length envs) (fst (evaluateStep f env e), 0)"
    if "isConstant e \<and> lastValue e = None"
    using that by (intro evaluateCalls_constant) simp_all
  show "evaluateCalls f envs e = replicate (length envs) (v, 0)"
    if "isConstant e \<and> lastValue e = Some v"
    using that by (intro evaluateCalls_cached) simp_all
  show "evaluateCalls f envs e = map (\<lambda>v. (v, 1)) (stepValues f envs e)" if "\<not> isConstant e"
    using that by (rule evaluateCalls_dynamic)
  show "evaluate f env e = (fst (evaluateCounted f env e), fst (snd (evaluateCounted f env e)))"
    by (simp add: evaluate_def split: prod.splits del: evaluate_unfold evaluateCounted.simps)
  show "SphericalEvaluator_evaluateCalls f (env # envs) s
        = (fst (SphericalEvaluator_evaluateStep f env s), 1)
            # replicate (length envs) (fst (SphericalEvaluator_evaluateStep f env s), 0)"
    if "SphericalEvaluator_isConstant s \<and> SphericalEvaluator_lastValue s = None"
    using that by (intro SphericalEvaluator_evaluateCalls_constant) simp_all
  show "SphericalEvaluator_evaluateCalls f envs s = replicate (length envs) (w, 0)"
    if "SphericalEvaluator_isConstant s \<and> SphericalEvaluator_lastValue s = Some w"
    using that by (intro SphericalEvaluator_evaluateCalls_cached) simp_all
  show "SphericalEvaluator_evaluateCalls f envs s
        = map (\<lambda>v. (v, 1)) (SphericalEvaluator_stepValues f envs s)"
    if "\<not> SphericalEvaluator_isConstant s"
    using that by (rule SphericalEvaluator_evaluateCalls_dynamic)
  show "SphericalEvaluator_evaluate f env s
       = (fst (SphericalEvaluator_evaluateCounted f env s),
          fst (snd (SphericalEvaluator_evaluateCounted f env s)))"
    by (simp add: SphericalEvaluator_evaluate_def split: prod.splits)
qed

lemma windowScrollY_examples:
  "windowScrollY scrolledPage = \<lparr>number = Finite (20 / 39), unit = None\<rparr>"
  "windowScrollY fittingPage = \<lparr>number = PosInfinity, unit = None\<rparr>"
  by (simp_all add: windowScrollY_def verticalScrollMax_def Math_max_def js_max2_def
      scrolledPage_def fittingPage_def js_sub_def js_or_def js_falsy_def js_infinity_def)

theorem evaluate_caching_witness:
  "isConstant (CalcEvaluator (Some complexAlgebraTree) None)
   \<and> lastValue (CalcEvaluator (Some complexAlgebraTree) None) = None
   \<and> evaluateCalls normalizeTerm [scrolledPage, fittingPage]
        (CalcEvaluator (Some complexAlgebraTree) None)
       = [(NumberNode (numberNode 4 None), 1), (NumberNode (numberNode 4 None), 0)]
   \<and> isConstant cachedSeven
   \<and> lastValue cachedSeven = Some (NumberNode (numberNode 7 None))
   \<and> evaluateCalls normalizeTerm [scrolledPage, fittingPage] cachedSeven
       = [(NumberNode (numberNode 7 None), 0), (NumberNode (numberNode 7 None), 0)]
   \<and> \<not> isConstant calcEnv
   \<and> evaluateCalls normalizeTerm [scrolledPage, fittingPage] calcEnv
       = [(NumberNode \<lparr>number = Finite (20 / 39), unit = None\<rparr>, 1),
          (NumberNode \<lparr>number = PosInfinity, unit = None\<rparr>, 1)]
   \<and> SphericalEvaluator_isConstant defaultSpherical
   \<and> SphericalEvaluator_lastValue defaultSpherical = None
   \<and> SphericalEvaluator_evaluateCalls normalizeTerm [scrolledPage, fittingPage] defaultSpherical
       = [((Finite 0, Finite 0, RadiusString ''auto''), 1),
          ((Finite 0, Finite 0, RadiusString ''auto''), 0)]
   \<and> \<not> SphericalEvaluator_isConstant scrollSpherical
   \<and> SphericalEvaluator_evaluateCalls normalizeTerm [scrolledPage, fittingPage] scrollSpherical
       = [((Finite (20 / 39), Finite 0, RadiusString ''auto''), 1),
          ((PosInfinity, Finite 0, RadiusString ''auto''), 1)]"
proof -
  have c: "isConstant (CalcEvaluator (Some complexAlgebraTree) None)"
    "lastValue (CalcEvaluator (Some complexAlgebraTree) None) = None"
    by (simp_all add: complexAlgebraTree_def)
  have v: "fst (evaluateStep normalizeTerm scrolledPage (CalcEvaluator (Some complexAlgebraTree) None))
      = NumberNode (numberNode 4 None)"
    by (simp add: complexAlgebraTree_def recomputes_def normalizeUnit_unitless operate_unitless)
  have s: "isConstant cachedSeven" "lastValue cachedSeven = Some (NumberNode (numberNode 7 None))"
    by (simp_all add: cachedSeven_def)
  have d: "\<not> isConstant calcEnv" by (simp add: calcEnv_def)
  have w: "stepValues normalizeTerm [scrolledPage, fittingPage] calcEnv
      = [NumberNode \<lparr>number = Finite (20 / 39), unit = None\<rparr>,
         NumberNode \<lparr>number = PosInfinity, unit = None\<rparr>]"
    by (simp add: calcEnv_def recomputes_def EnvEvaluator_evaluate_def windowScrollY_examples)
  have sc: "SphericalEvaluator_isConstant defaultSpherical"
    "SphericalEvaluator_lastValue defaultSpherical = None"
    by (simp_all add: defaultSpherical_def)
  have sv: "fst (SphericalEvaluator_evaluateStep normalizeTerm scrolledPage defaultSpherical)
      = (Finite 0, Finite 0, RadiusString ''auto'')"
    by (simp add: defaultSpherical_def normalizeUnit_def ZERO_def)
  have sd: "\<not> SphericalEvaluator_isConstant scrollSpherical"
    by (simp add: scrollSpherical_def)
  have sw: "SphericalEvaluator_stepValues normalizeTerm [scrolledPage, fittingPage] scrollSpherical
      = [(Finite (20 / 39), Finite 0, RadiusString ''auto''),
         (PosInfinity, Finite 0, RadiusString ''auto'')]"
    by (simp add: scrollSpherical_def recomputes_def EnvEvaluator_evaluate_def
        windowScrollY_examples normalizeUnit_def ZERO_def)
  show ?thesis
    using c v s d w sc sv sd sw
      evaluate_caching [of "CalcEvaluator (Some complexAlgebraTree) None" normalizeTerm
        scrolledPage "[fittingPage]" _ defaultSpherical]
      evaluate_caching [of cachedSeven normalizeTerm scrolledPage "[scrolledPage, fittingPage]"
        "NumberNode (numberNode 7 None)" scrollSpherical]
      evaluate_caching [of calcEnv normalizeTerm scrolledPage "[scrolledPage, fittingPage]"]
    by (simp del: evaluate_unfold evaluateCalls.simps SphericalEvaluator_evaluateCalls.simps
        stepValues.simps SphericalEvaluator_stepValues.simps evaluateStep.simps
        SphericalEvaluator_evaluateStep.simps)
qed

subsection \<open>Constancy\<close>

lemma isConstant_reachable:
  "isConstant e = (\<forall>s \<in> set (reachable e). \<not> isEnvEvaluator s)"
  "Evaluator_isConstant x = (\<forall>s \<in> set (reachableFrom x). \<not> isEnvEvaluator s)"
  by (induction e and x rule: isConstant_Evaluator_isConstant.induct)
     (auto split: option.splits)

text \<open>
  C4: an evaluator is constant exactly when no \<open>EnvEvaluator\<close> is among the evaluators
  reachable from it. An \<open>EnvEvaluator\<close> is never constant; an \<open>OperatorEvaluator\<close> and a
  \<open>SphericalEvaluator\<close> are constant when all their operands are; what is not an
  evaluator is constant; a \<open>CalcEvaluator\<close> is constant when it has no inner tree or a
  constant one.
\<close>

theorem isConstant_iff_no_env:
  "isConstant e = (\<forall>s \<in> set (reachable e). \<not> isEnvEvaluator s)
   \<and> \<not> isConstant (EnvEvaluator identNode lv)
   \<and> isConstant (OperatorEvaluator operator left right lv)
       = (Evaluator_isConstant left \<and> Evaluator_isConstant right)
   \<and> SphericalEvaluator_isConstant (SphericalEvaluator theta phi radius slv)
       = (Evaluator_isConstant theta \<and> Evaluator_isConstant phi \<and> Evaluator_isConstant radius)
   \<and> Evaluator_isConstant (NumberLiteral n)
   \<and> Evaluator_isConstant (IdentLiteral v)
   \<and> Evaluator_isConstant (Node e) = isConstant e
   \<and> isConstant (CalcEvaluator evaluator lv)
       = (evaluator = None \<or> (\<exists>x. evaluator = Some x \<and> Evaluator_isConstant x))
   \<and> Evaluator_isConstant x = (\<forall>s \<in> set (reachableFrom x). \<not> isEnvEvaluator s)"
  using isConstant_reachable(1) [of e] isConstant_reachable(2) [of x] by (cases evaluator) simp_all

theorem isConstant_iff_no_env_witness:
  "CalcEvaluator_new [nestedEnv] = Inr (CalcEvaluator (Some nestedEnvTree) None)
   \<and> EnvEvaluator (Some ''window-scroll-y'') None
        \<in> set (reachable (CalcEvaluator (Some nestedEnvTree) None))
   \<and> \<not> isConstant (CalcEvaluator (Some nestedEnvTree) None)
   \<and> isConstant (CalcEvaluator (Some complexAlgebraTree) None)"
proof -
  have "CalcEvaluator_new [nestedEnv] = Inr (CalcEvaluator (Some nestedEnvTree) None)"
    by (simp add: nestedEnv_def nestedEnvTree_def IS_MULTIPLICATION_RE_def combine_def
        EnvEvaluator_new_def)
  moreover have "EnvEvaluator (Some ''window-scroll-y'') None
        \<in> set (reachable (CalcEvaluator (Some nestedEnvTree) None))"
    by (simp add: nestedEnvTree_def)
  moreover have "\<not> isConstant (CalcEvaluator (Some nestedEnvTree) None)"
    using isConstant_iff_no_env [of "CalcEvaluator (Some nestedEnvTree) None"] calculation(2)
    by (metis isEnvEvaluator.simps(1))
  moreover have "isConstant (CalcEvaluator (Some complexAlgebraTree) None)"
    using isConstant_iff_no_env [of "CalcEvaluator (Some complexAlgebraTree) None"]
    by (simp add: complexAlgebraTree_def)
  ultimately show ?thesis by blast
qed

subsection \<open>Operators and units\<close>

text \<open>
  C5: whatever the operator, when the normalized results of the two operands both have
  a unit and the units differ, the evaluation step of \<open>OperatorEvaluator\<close> and
  \<open>evaluate()\<close> on a fresh one return the zero node.
\<close>

theorem operator_mismatched_units:
  "unit (f (fst (Evaluator_evaluate f env left))) = Some a
   \<Longrightarrow> unit (f (fst (Evaluator_evaluate f env right))) = Some b
   \<Longrightarrow> a \<noteq> b
   \<Longrightarrow> fst (evaluateStep f env (OperatorEvaluator operator left right lv)) = NumberNode ZERO
       \<and> fst (evaluate f env (OperatorEvaluator operator left right None)) = NumberNode ZERO"
  by (auto simp: recomputes_def operate_def split: prod.splits)

theorem operator_mismatched_units_witness:
  "unit (normalizeTerm (fst (Evaluator_evaluate normalizeTerm scrolledPage
       (NumberLiteral (numberNode 1 (Some ''m'')))))) = Some ''m''
   \<and> unit (normalizeTerm (fst (Evaluator_evaluate normalizeTerm scrolledPage
       (NumberLiteral (numberNode 1 (Some ''rad'')))))) = Some ''rad''
   \<and> ''m'' \<noteq> ''rad''
   \<and> fst (evaluate normalizeTerm scrolledPage
        (OperatorEvaluator ''+'' (NumberLiteral (numberNode 1 (Some ''m'')))
           (NumberLiteral (numberNode 1 (Some ''rad''))) None)) = NumberNode ZERO"
proof -
  have l: "unit (normalizeTerm (fst (Evaluator_evaluate normalizeTerm scrolledPage
       (NumberLiteral (numberNode 1 (Some ''m'')))))) = Some ''m''"
    by (simp add: normalizeUnit_def numberNode_def)
  have r: "unit (normalizeTerm (fst (Evaluator_evaluate normalizeTerm scrolledPage
       (NumberLiteral (numberNode 1 (Some ''rad'')))))) = Some ''rad''"
    by (simp add: normalizeUnit_def numberNode_def)
  have d: "''m'' \<noteq> ''rad''" by simp
  show ?thesis using l r d operator_mismatched_units [OF l r d, of "''+''" None] by blast
qed

lemma normalizeUnit_supported:
  "supportedUnit (unit n) \<Longrightarrow> unit (normalizeUnit n) \<in> {None, Some ''rad'', Some ''m''}"
  by (auto simp: supportedUnit_def normalizeUnit_def)

lemma unit_or_base:
  "u \<in> {None, Some ''rad'', Some ''m''} \<Longrightarrow> unit_or u w = (if u \<noteq> None then u else w)"
  by (auto simp: unit_or_def)

lemma operate_known:
  assumes "\<not> (unit r \<noteq> None \<and> unit l \<noteq> None \<and> unit r \<noteq> unit l)"
  shows "operate ''+'' l r = \<lparr>number = js_add (number l) (number r), unit = unit_or (unit l) (unit r)\<rparr>"
    and "operate ''-'' l r = \<lparr>number = js_sub (number l) (number r), unit = unit_or (unit l) (unit r)\<rparr>"
    and "operate ''*'' l r = \<lparr>number = js_mul (number l) (number r), unit = unit_or (unit l) (unit r)\<rparr>"
    and "operate ''/'' l r = \<lparr>number = js_div (number l) (number r), unit = unit_or (unit l) (unit r)\<rparr>"
  using assms by (auto simp: operate_def Let_def)

lemma Evaluator_evaluate_literal:
  "fst (Evaluator_evaluate f env (NumberLiteral n)) = NumberNode n"
  by simp

lemma evaluate_operator:
  "fst (Evaluator_evaluate f env left) = NumberNode leftNode
   \<Longrightarrow> fst (Evaluator_evaluate f env right) = NumberNode rightNode
   \<Longrightarrow> normalizes f
   \<Longrightarrow> fst (evaluate f env (OperatorEvaluator operator left right None))
       = NumberNode (operate operator (normalizeUnit leftNode) (normalizeUnit rightNode))"
  by (auto simp: recomputes_def normalizes_def split: prod.splits)

text \<open>
  C6: under a normalizer that follows the spec, when the operands evaluate to number nodes
  of supported units, the normalized units are \<open>rad\<close>, \<open>m\<close> or none; when they are not
  two different ones, each of the four operators is applied to the normalized numbers
  and the unit of the result is the normalized unit that is not missing. So \<open>1m + 1000mm\<close> is \<open>2m\<close> and
  \<open>180deg + \<pi>rad\<close> is \<open>2\<pi>rad\<close>, with \<open>Math.PI\<close> for \<open>\<pi>\<close>.
\<close>

theorem operator_normalizes_units:
  "normalizes f \<longrightarrow>
    (fst (Evaluator_evaluate f env left) = NumberNode leftNode \<and> supportedUnit (unit leftNode)
     \<and> fst (Evaluator_evaluate f env right) = NumberNode rightNode \<and> supportedUnit (unit rightNode)
     \<and> \<not> (unit (normalizeUnit rightNode) \<noteq> None \<and> unit (normalizeUnit leftNode) \<noteq> None
           \<and> unit (normalizeUnit rightNode) \<noteq> unit (normalizeUnit leftNode))
     \<longrightarrow>
       unit (normalizeUnit leftNode) \<in> {None, Some ''rad'', Some ''m''}
       \<and> unit (normalizeUnit rightNode) \<in> {None, Some ''rad'', Some ''m''}
       \<and> fst (evaluate f env (OperatorEvaluator ''+'' left right None))
         = NumberNode \<lparr>number = js_add (number (normalizeUnit leftNode)) (number (normalizeUnit rightNode)),
             unit = (if unit (normalizeUnit leftNode) \<noteq> None then unit (normalizeUnit leftNode)
                     else unit (normalizeUnit rightNode))\<rparr>
       \<and> fst (evaluate f env (OperatorEvaluator ''-'' left right None))
         = NumberNode \<lparr>number = js_sub (number (normalizeUnit leftNode)) (number (normalizeUnit rightNode)),
             unit = (if unit (normalizeUnit leftNode) \<noteq> None then unit (normalizeUnit leftNode)
                     else unit (normalizeUnit rightNode))\<rparr>
       \<and> fst (evaluate f env (OperatorEvaluator ''*'' left right None))
         = NumberNode \<lparr>number = js_mul (number (normalizeUnit leftNode)) (number (normalizeUnit rightNode)),
             unit = (if unit (normalizeUnit leftNode) \<noteq> None then unit (normalizeUnit leftNode)
                     else unit (normalizeUnit rightNode))\<rparr>
       \<and> fst (evaluate f env (OperatorEvaluator ''/'' left right None))
         = NumberNode \<lparr>number = js_div (number (normalizeUnit leftNode)) (number (normalizeUnit rightNode)),
             unit = (if unit (normalizeUnit leftNode) \<noteq> None then unit (normalizeUnit leftNode)
                     else unit (normalizeUnit rightNode))\<rparr>)
    \<and> fst (evaluate f env
          (OperatorEvaluator ''+'' (NumberLiteral (numberNode 1 (Some ''m'')))
             (NumberLiteral (numberNode 1000 (Some ''mm''))) None))
        = NumberNode (numberNode 2 (Some ''m''))
    \<and> fst (evaluate f env
          (OperatorEvaluator ''+'' (NumberLiteral (numberNode 180 (Some ''deg'')))
             (NumberLiteral (numberNode Math_PI (Some ''rad''))) None))
        = NumberNode (numberNode (2 * Math_PI) (Some ''rad''))"
proof (intro impI conjI)
  assume n: "normalizes f"
  show "fst (evaluate f env
          (OperatorEvaluator ''+'' (NumberLiteral (numberNode 1 (Some ''m'')))
             (NumberLiteral (numberNode 1000 (Some ''mm''))) None))
        = NumberNode (numberNode 2 (Some ''m''))"
    using evaluate_operator [OF Evaluator_evaluate_literal Evaluator_evaluate_literal n, of env]
    by (simp add: operate_def normalizeUnit_def numberNode_def unit_or_def)
  show "fst (evaluate f env
          (OperatorEvaluator ''+'' (NumberLiteral (numberNode 180 (Some ''deg'')))
             (NumberLiteral (numberNode Math_PI (Some ''rad''))) None))
        = NumberNode (numberNode (2 * Math_PI) (Some ''rad''))"
    using evaluate_operator [OF Evaluator_evaluate_literal Evaluator_evaluate_literal n, of env]
    by (simp add: operate_def normalizeUnit_def numberNode_def unit_or_def)
  assume a: "fst (Evaluator_evaluate f env left) = NumberNode leftNode \<and> supportedUnit (unit leftNode)
     \<and> fst (Evaluator_evaluate f env right) = NumberNode rightNode \<and> supportedUnit (unit rightNode)
     \<and> \<not> (unit (normalizeUnit rightNode) \<noteq> None \<and> unit (normalizeUnit leftNode) \<noteq> None
           \<and> unit (normalizeUnit rightNode) \<noteq> unit (normalizeUnit leftNode))"
  then have l: "fst (Evaluator_evaluate f env left) = NumberNode leftNode"
    and r: "fst (Evaluator_evaluate f env right) = NumberNode rightNode"
    and m: "\<not> (unit (normalizeUnit rightNode) \<noteq> None \<and> unit (normalizeUnit leftNode) \<noteq> None
           \<and> unit (normalizeUnit rightNode) \<noteq> unit (normalizeUnit leftNode))"
    by simp_all
  have u: "unit_or (unit (normalizeUnit leftNode)) (unit (normalizeUnit rightNode))
      = (if unit (normalizeUnit leftNode) \<noteq> None then unit (normalizeUnit leftNode)
         else unit (normalizeUnit rightNode))"
    using a by (intro unit_or_base normalizeUnit_supported) simp
  show "unit (normalizeUnit leftNode) \<in> {None, Some ''rad'', Some ''m''}"
    using a by (intro normalizeUnit_supported) simp
  show "unit (normalizeUnit rightNode) \<in> {None, Some ''rad'', Some ''m''}"
    using a by (intro normalizeUnit_supported) simp
  show "fst (evaluate f env (OperatorEvaluator ''+'' left right None))
         = NumberNode \<lparr>number = js_add (number (normalizeUnit leftNode)) (number (normalizeUnit rightNode)),
             unit = (if unit (normalizeUnit leftNode) \<noteq> None then unit (normalizeUnit leftNode)
                     else unit (normalizeUnit rightNode))\<rparr>"
    by (simp only: evaluate_operator [OF l r n] operate_known(1) [OF m] u)
  show "fst (evaluate f env (OperatorEvaluator ''-'' left right None))
         = NumberNode \<lparr>number = js_sub (number (normalizeUnit leftNode)) (number (normalizeUnit rightNode)),
             unit = (if unit (normalizeUnit leftNode) \<noteq> None then unit (normalizeUnit leftNode)
                     else unit (normalizeUnit rightNode))\<rparr>"
    by (simp only: evaluate_operator [OF l r n] operate_known(2) [OF m] u)
  show "fst (evaluate f env (OperatorEvaluator ''*'' left right None))
         = NumberNode \<lparr>number = js_mul (number (normalizeUnit leftNode)) (number (normalizeUnit rightNode)),
             unit = (if unit (normalizeUnit leftNode) \<noteq> None then unit (normalizeUnit leftNode)
                     else unit (normalizeUnit rightNode))\<rparr>"
    by (simp only: evaluate_operator [OF l r n] operate_known(3) [OF m] u)
  show "fst (evaluate f env (OperatorEvaluator ''/'' left right None))
         = NumberNode \<lparr>number = js_div (number (normalizeUnit leftNode)) (number (normalizeUnit rightNode)),
             unit = (if unit (normalizeUnit leftNode) \<noteq> None then unit (normalizeUnit leftNode)
                     else unit (normalizeUnit rightNode))\<rparr>"
    by (simp only: evaluate_operator [OF l r n] operate_known(4) [OF m] u)
qed

theorem operator_normalizes_units_witness:
  "normalizes normalizeTerm
   \<and> fst (Evaluator_evaluate normalizeTerm scrolledPage (NumberLiteral (numberNode 3 (Some ''cm''))))
       = NumberNode (numberNode 3 (Some ''cm''))
   \<and> supportedUnit (unit (numberNode 3 (Some ''cm'')))
   \<and> fst (Evaluator_evaluate normalizeTerm scrolledPage (NumberLiteral (numberNode 2 None)))
       = NumberNode (numberNode 2 None)
   \<and> supportedUnit (unit (numberNode 2 None))
   \<and> unit (normalizeUnit (numberNode 2 None)) = None
   \<and> fst (evaluate normalizeTerm scrolledPage
        (OperatorEvaluator ''*'' (NumberLiteral (numberNode 3 (Some ''cm'')))
           (NumberLiteral (numberNode 2 None)) None))
       = NumberNode \<lparr>number = Finite (3 / 50), unit = Some ''m''\<rparr>
   \<and> fst (evaluate normalizeTerm scrolledPage
        (OperatorEvaluator ''+'' (NumberLiteral (numberNode 1 (Some ''m'')))
           (NumberLiteral (numberNode 1000 (Some ''mm''))) None))
       = NumberNode \<lparr>number = Finite 2, unit = Some ''m''\<rparr>"
proof -
  have s: "supportedUnit (unit (numberNode 3 (Some ''cm'')))"
    "supportedUnit (unit (numberNode 2 None))"
    by (simp_all add: supportedUnit_def numberNode_def)
  have u: "unit (normalizeUnit (numberNode 2 None)) = None"
    by (simp add: normalizeUnit_def numberNode_def)
  show ?thesis
    using normalizes_normalizeTerm s u
      operator_normalizes_units [of normalizeTerm scrolledPage
        "NumberLiteral (numberNode 3 (Some ''cm''))" "numberNode 3 (Some ''cm'')"
        "NumberLiteral (numberNode 2 None)" "numberNode 2 None"]
    by (simp add: normalizeUnit_def numberNode_def)
qed

subsection \<open>The environment\<close>

text \<open>
  C7 says that the scroll fraction is 0 whenever the divisor is 0. On a page that fits
  its window, so that the divisor is 0, with a scroll position of 100, the quotient is
  \<open>Infinity\<close>, which \<open>|| 0\<close> lets through.
\<close>

theorem env_scroll_counterexample:
  "js_sub (verticalScrollMax fittingPage) (innerHeight fittingPage) = Finite 0
   \<and> fst (evaluate normalizeTerm fittingPage (EnvEvaluator (Some ''window-scroll-y'') None))
       = NumberNode \<lparr>number = PosInfinity, unit = None\<rparr>
   \<and> fst (evaluate normalizeTerm fittingPage (EnvEvaluator (Some ''window-scroll-y'') None))
       \<noteq> NumberNode ZERO"
  by (simp add: recomputes_def EnvEvaluator_evaluate_def windowScrollY_def verticalScrollMax_def
      Math_max_def js_max2_def fittingPage_def js_sub_def js_or_def js_falsy_def js_infinity_def
      ZERO_def)

text \<open>
  C7, amended: with the identifier \<open>window-scroll-y\<close> the result is the quotient of the
  scroll position by the scroll extent less the window height, without unit, and 0 in
  place of a quotient that is \<open>NaN\<close> or zero; so it is 0 when position and divisor are
  both 0, and infinite when a finite position other than 0 meets the divisor 0. With
  another identifier or none the result is the zero node. An \<open>EnvEvaluator\<close> is never
  constant.
\<close>

theorem env_window_scroll_y:
  "fst (evaluate f env (EnvEvaluator (Some ''window-scroll-y'') lv))
     = NumberNode
         \<lparr>number =
            (let scrollY = js_div (pageYOffset env)
                             (js_sub (verticalScrollMax env) (innerHeight env))
             in if scrollY = NaN \<or> scrollY = Finite 0 then Finite 0 else scrollY),
          unit = None\<rparr>
   \<and> (pageYOffset env = Finite 0
       \<and> js_sub (verticalScrollMax env) (innerHeight env) = Finite 0
       \<longrightarrow> fst (evaluate f env (EnvEvaluator (Some ''window-scroll-y'') lv)) = NumberNode ZERO)
   \<and> (pageYOffset env = Finite p \<and> p \<noteq> 0
       \<and> js_sub (verticalScrollMax env) (innerHeight env) = Finite 0
       \<longrightarrow> fst (evaluate f env (EnvEvaluator (Some ''window-scroll-y'') lv))
             = NumberNode \<lparr>number = (if p < 0 then NegInfinity else PosInfinity), unit = None\<rparr>)
   \<and> (v \<noteq> ''window-scroll-y''
       \<longrightarrow> fst (evaluate f env (EnvEvaluator (Some v) lv)) = NumberNode ZERO)
   \<and> fst (evaluate f env (EnvEvaluator None lv)) = NumberNode ZERO
   \<and> \<not> isConstant (EnvEvaluator identNode lv)"
  by (auto simp: recomputes_def EnvEvaluator_evaluate_def windowScrollY_def js_or_def js_falsy_def
      js_infinity_def ZERO_def Let_def)

theorem env_window_scroll_y_witness:
  "fst (evaluate normalizeTerm scrolledPage (EnvEvaluator (Some ''window-scroll-y'') None))
     = NumberNode \<lparr>number = Finite (20 / 39), unit = None\<rparr>
   \<and> pageYOffset (fittingPage\<lparr>pageYOffset := Finite 0\<rparr>) = Finite 0
   \<and> js_sub (verticalScrollMax (fittingPage\<lparr>pageYOffset := Finite 0\<rparr>))
        (innerHeight (fittingPage\<lparr>pageYOffset := Finite 0\<rparr>)) = Finite 0
   \<and> fst (evaluate normalizeTerm (fittingPage\<lparr>pageYOffset := Finite 0\<rparr>)
        (EnvEvaluator (Some ''window-scroll-y'') None)) = NumberNode ZERO
   \<and> pageYOffset fittingPage = Finite 100
   \<and> js_sub (verticalScrollMax fittingPage) (innerHeight fittingPage) = Finite 0
   \<and> fst (evaluate normalizeTerm fittingPage (EnvEvaluator (Some ''window-scroll-y'') None))
       = NumberNode \<lparr>number = PosInfinity, unit = None\<rparr>
   \<and> ''window-scroll-x'' \<noteq> ''window-scroll-y''
   \<and> fst (evaluate normalizeTerm scrolledPage (EnvEvaluator (Some ''window-scroll-x'') None))
       = NumberNode ZERO"
proof -
  have d: "js_sub (verticalScrollMax fittingPage) (innerHeight fittingPage) = Finite 0"
    "js_sub (verticalScrollMax (fittingPage\<lparr>pageYOffset := Finite 0\<rparr>))
        (innerHeight (fittingPage\<lparr>pageYOffset := Finite 0\<rparr>)) = Finite 0"
    by (simp_all add: verticalScrollMax_def Math_max_def js_max2_def fittingPage_def js_sub_def)
  have p: "pageYOffset fittingPage = Finite 100"
    "pageYOffset (fittingPage\<lparr>pageYOffset := Finite 0\<rparr>) = Finite 0"
    by (simp_all add: fittingPage_def)
  have q: "js_div (pageYOffset scrolledPage)
      (js_sub (verticalScrollMax scrolledPage) (innerHeight scrolledPage)) = Finite (20 / 39)"
    by (simp add: verticalScrollMax_def Math_max_def js_max2_def scrolledPage_def js_sub_def)
  show ?thesis
    using d p q
      env_window_scroll_y [of normalizeTerm scrolledPage None 0 "''window-scroll-x''"]
      env_window_scroll_y [of normalizeTerm "fittingPage\<lparr>pageYOffset := Finite 0\<rparr>" None 0]
      env_window_scroll_y [of normalizeTerm fittingPage None 100]
    by (simp add: ZERO_def js_infinity_def del: evaluate_unfold)
qed

subsection \<open>Failed reductions\<close>

text \<open>
  The first loop leaves the constructor early only from a stack that is a single
  multiplicative operator, and the stack has that form only when the expression starts
  with such an operator and goes on.
\<close>

lemma firstPass_no_return:
  "secondOrderTerms \<noteq> [] \<Longrightarrow>
   (length secondOrderTerms \<ge> 2 \<or> multiplicationOperator (last secondOrderTerms) = None) \<Longrightarrow>
   firstPass terms secondOrderTerms \<noteq> Inr None"
proof (induction terms arbitrary: secondOrderTerms)
  case Nil
  then show ?case by simp
next
  case (Cons t terms)
  show ?case
  proof (cases "multiplicationOperator (last secondOrderTerms) \<noteq> None")
    case True
    with Cons.prems have len: "length secondOrderTerms \<ge> 2" by auto
    then obtain top leftValue bottom where r: "rev secondOrderTerms = top # leftValue # bottom"
      by (cases "rev secondOrderTerms"; cases "tl (rev secondOrderTerms)") (auto simp: Suc_le_eq)
    then have "last secondOrderTerms = top"
      by (metis Cons.prems(1) last_rev list.sel(1) rev_rev_ident hd_rev)
    with True obtain v where top: "top = OperatorLiteral v"
      by (cases top) auto
    have "firstPass terms (butlast (butlast secondOrderTerms) @ [Node (OperatorEvaluator v l r' None)])
        \<noteq> Inr None" for l r'
      by (rule Cons.IH) simp_all
    then show ?thesis
      using True Cons.prems(1) r top
      by (auto split: sum.splits)
  next
    case False
    have "firstPass terms (secondOrderTerms @ [x]) \<noteq> Inr None" for x
    proof (rule Cons.IH)
      show "secondOrderTerms @ [x] \<noteq> []" by simp
      have "1 \<le> length secondOrderTerms"
        using Cons.prems(1) by (cases secondOrderTerms) simp_all
      then show "2 \<le> length (secondOrderTerms @ [x])
          \<or> multiplicationOperator (last (secondOrderTerms @ [x])) = None"
        by simp
    qed
    then show ?thesis
      using False by (auto split: sum.splits ExpressionTerm.splits)
  qed
qed

lemma firstPass_return:
  "firstPass terms [] = Inr None
   \<longleftrightarrow> (\<exists>v t ts. terms = OperatorNode v # t # ts \<and> IS_MULTIPLICATION_RE v)"
proof (cases terms)
  case Nil
  then show ?thesis by simp
next
  case (Cons t ts)
  show ?thesis
  proof (cases "\<exists>v. t = OperatorNode v")
    case True
    then obtain v where t: "t = OperatorNode v" by blast
    show ?thesis
    proof (cases ts)
      case Nil
      with Cons t show ?thesis by simp
    next
      case (Cons t' ts')
      show ?thesis
      proof (cases "IS_MULTIPLICATION_RE v")
        case True
        with \<open>terms = t # ts\<close> t Cons show ?thesis by simp
      next
        case False
        have "firstPass ts [OperatorLiteral v] \<noteq> Inr None"
          using False by (intro firstPass_no_return) simp_all
        with \<open>terms = t # ts\<close> t Cons False show ?thesis by simp
      qed
    qed
  next
    case False
    have "firstPass ts [x] \<noteq> Inr None" if "evaluatableFor t = Inr x" for x
    proof (rule firstPass_no_return)
      show "[x] \<noteq> []" by simp
      have "\<forall>v. x \<noteq> OperatorLiteral v"
        using that by (cases t) (auto split: if_splits sum.splits)
      then have "multiplicationOperator x = None" by (cases x) auto
      then show "2 \<le> length [x] \<or> multiplicationOperator (last [x]) = None" by simp
    qed
    with Cons False show ?thesis
      by (cases t) (auto split: sum.splits)
  qed
qed


lemma CalcEvaluator_new_arguments:
  "length arguments \<noteq> 1 \<Longrightarrow> CalcEvaluator_new arguments = Inr (CalcEvaluator None None)"
  by (cases arguments; cases "tl arguments") auto

text \<open>
  C8: a \<open>CalcEvaluator\<close> whose constructor returns has no inner tree when the number of
  arguments is not 1, when the first loop returns early (a multiplicative operator at the
  start of the expression has no left operand on the stack when the next term comes),
  when the second loop returns early (the middle one of the first three entries is not
  an operator), and when the entries left at the end are not exactly one; and a
  \<open>CalcEvaluator\<close> without inner tree evaluates to the zero node.
\<close>

theorem calc_failed_construction:
  "(length arguments \<noteq> 1 \<longrightarrow> CalcEvaluator_new arguments = Inr (CalcEvaluator None None))
   \<and> (IS_MULTIPLICATION_RE v \<longrightarrow>
        firstPass (OperatorNode v # term # terms) [] = Inr None)
   \<and> ((\<forall>v. operator \<noteq> OperatorLiteral v) \<longrightarrow>
        secondPass (left # operator # right # rest) = Inr None)
   \<and> (firstPass expression [] = Inr None \<longrightarrow>
        (\<exists>v t ts. expression = OperatorNode v # t # ts \<and> IS_MULTIPLICATION_RE v)
        \<and> CalcEvaluator_new [expression] = Inr (CalcEvaluator None None))
   \<and> (firstPass expression [] = Inr (Some secondOrderTerms)
        \<and> secondPass secondOrderTerms = Inr None \<longrightarrow>
        CalcEvaluator_new [expression] = Inr (CalcEvaluator None None))
   \<and> (firstPass expression [] = Inr (Some secondOrderTerms)
        \<and> secondPass secondOrderTerms = Inr (Some remaining) \<and> length remaining \<noteq> 1 \<longrightarrow>
        CalcEvaluator_new [expression] = Inr (CalcEvaluator None None))
   \<and> fst (evaluate f env (CalcEvaluator None None)) = NumberNode ZERO"
proof (intro conjI impI)
  show "CalcEvaluator_new arguments = Inr (CalcEvaluator None None)" if "length arguments \<noteq> 1"
    using that by (rule CalcEvaluator_new_arguments)
  show "firstPass (OperatorNode v # term # terms) [] = Inr None" if "IS_MULTIPLICATION_RE v"
    using that by simp
  show "secondPass (left # operator # right # rest) = Inr None"
    if "\<forall>v. operator \<noteq> OperatorLiteral v"
    using that by (cases operator) simp_all
  show "\<exists>v t ts. expression = OperatorNode v # t # ts \<and> IS_MULTIPLICATION_RE v"
    if "firstPass expression [] = Inr None"
    using that by (simp only: firstPass_return)
  show "CalcEvaluator_new [expression] = Inr (CalcEvaluator None None)"
    if "firstPass expression [] = Inr None"
    using that by simp
  show "CalcEvaluator_new [expression] = Inr (CalcEvaluator None None)"
    if "firstPass expression [] = Inr (Some secondOrderTerms)
        \<and> secondPass secondOrderTerms = Inr None"
    using that by (simp add: combine_def)
  show "CalcEvaluator_new [expression] = Inr (CalcEvaluator None None)"
    if "firstPass expression [] = Inr (Some secondOrderTerms)
        \<and> secondPass secondOrderTerms = Inr (Some remaining) \<and> length remaining \<noteq> 1"
    using that by (cases remaining; cases "tl remaining") (auto simp: combine_def)
  show "fst (evaluate f env (CalcEvaluator None None)) = NumberNode ZERO"
    by (simp add: recomputes_def)
qed

theorem calc_failed_construction_witness:
  "length ([] :: ExpressionNode list) \<noteq> 1
   \<and> CalcEvaluator_new [] = Inr (CalcEvaluator None None)
   \<and> IS_MULTIPLICATION_RE ''*''
   \<and> firstPass [OperatorNode ''*'', NumberNode (numberNode 2 None)] [] = Inr None
   \<and> CalcEvaluator_new [[OperatorNode ''*'', NumberNode (numberNode 2 None)]]
       = Inr (CalcEvaluator None None)
   \<and> firstPass threeNumbers []
       = Inr (Some [NumberLiteral (numberNode 1 None), NumberLiteral (numberNode 2 None),
           NumberLiteral (numberNode 3 None)])
   \<and> secondPass [NumberLiteral (numberNode 1 None), NumberLiteral (numberNode 2 None),
        NumberLiteral (numberNode 3 None)] = Inr None
   \<and> CalcEvaluator_new [threeNumbers] = Inr (CalcEvaluator None None)
   \<and> firstPass [NumberNode (numberNode 1 None), OperatorNode ''+''] []
       = Inr (Some [NumberLiteral (numberNode 1 None), OperatorLiteral ''+''])
   \<and> secondPass [NumberLiteral (numberNode 1 None), OperatorLiteral ''+'']
       = Inr (Some [NumberLiteral (numberNode 1 None), OperatorLiteral ''+''])
   \<and> CalcEvaluator_new [[NumberNode (numberNode 1 None), OperatorNode ''+'']]
       = Inr (CalcEvaluator None None)
   \<and> fst (evaluate normalizeTerm scrolledPage (CalcEvaluator None None)) = NumberNode ZERO"
proof -
  have m: "IS_MULTIPLICATION_RE ''*''" by (simp add: IS_MULTIPLICATION_RE_def)
  have p1: "firstPass threeNumbers []
       = Inr (Some [NumberLiteral (numberNode 1 None), NumberLiteral (numberNode 2 None),
           NumberLiteral (numberNode 3 None)])"
    by (simp add: threeNumbers_def)
  have p2: "firstPass [NumberNode (numberNode 1 None), OperatorNode ''+''] []
       = Inr (Some [NumberLiteral (numberNode 1 None), OperatorLiteral ''+''])"
    by (simp add: IS_MULTIPLICATION_RE_def)
  have s1: "secondPass [NumberLiteral (numberNode 1 None), NumberLiteral (numberNode 2 None),
        NumberLiteral (numberNode 3 None)] = Inr None"
    by simp
  have s2: "secondPass [NumberLiteral (numberNode 1 None), OperatorLiteral ''+'']
       = Inr (Some [NumberLiteral (numberNode 1 None), OperatorLiteral ''+''])"
    by simp
  have f: "firstPass [OperatorNode ''*'', NumberNode (numberNode 2 None)] [] = Inr None"
    using m calc_failed_construction [of "[]" "''*''" "NumberNode (numberNode 2 None)" "[]"]
    by blast
  show ?thesis
    using m p1 p2 s1 s2 f
      calc_failed_construction [of "[]" "''*''" "NumberNode (numberNode 2 None)" "[]"
        "NumberLiteral (numberNode 2 None)" "NumberLiteral (numberNode 1 None)"
        "NumberLiteral (numberNode 3 None)" "[]"
        "[OperatorNode ''*'', NumberNode (numberNode 2 None)]" _ _ normalizeTerm scrolledPage]
      calc_failed_construction [of _ _ _ _ _ _ _ _ threeNumbers
        "[NumberLiteral (numberNode 1 None), NumberLiteral (numberNode 2 None),
           NumberLiteral (numberNode 3 None)]"]
      calc_failed_construction [of _ _ _ _ _ _ _ _
        "[NumberNode (numberNode 1 None), OperatorNode ''+'']"
        "[NumberLiteral (numberNode 1 None), OperatorLiteral ''+'']"
        "[NumberLiteral (numberNode 1 None), OperatorLiteral ''+'']"]
    by (simp del: evaluate_unfold firstPass.simps secondPass.simps CalcEvaluator_new.simps)
qed

subsection \<open>Spherical values\<close>

lemma SphericalEvaluator_evaluate_fresh:
  "fst (SphericalEvaluator_evaluate f env (SphericalEvaluator theta phi radius None))
     = fst (SphericalEvaluator_evaluateStep f env (SphericalEvaluator theta phi radius None))"
  by (simp add: SphericalEvaluator_evaluate_unfold SphericalEvaluator_recomputes_def
      split: prod.splits SphericalEvaluator.splits)

text \<open>
  C9: a missing azimuth or inclination is the zero node and a missing radius the
  identifier \<open>auto\<close>, so that without expressions the evaluator evaluates to
  \<open>[0, 0, 'auto']\<close>; on \<open>1rad 180deg 100cm\<close> it evaluates to \<open>[1, \<pi>, 1]\<close>, under every
  normalizer that follows the spec, with \<open>Math.PI\<close> for \<open>\<pi>\<close>.
\<close>

theorem spherical_defaults:
  "normalizes f \<longrightarrow>
     SphericalEvaluator_new []
       = Inr (SphericalEvaluator (NumberLiteral ZERO) (NumberLiteral ZERO) (IdentLiteral ''auto'') None)
     \<and> SphericalEvaluator_new [[]]
       = Inr (SphericalEvaluator (NumberLiteral ZERO) (NumberLiteral ZERO) (IdentLiteral ''auto'') None)
     \<and> SphericalEvaluator_new [[NumberNode azimuth]]
       = Inr (SphericalEvaluator (NumberLiteral azimuth) (NumberLiteral ZERO) (IdentLiteral ''auto'') None)
     \<and> SphericalEvaluator_new [[NumberNode azimuth, NumberNode inclination]]
       = Inr (SphericalEvaluator (NumberLiteral azimuth) (NumberLiteral inclination)
           (IdentLiteral ''auto'') None)
     \<and> fst (SphericalEvaluator_evaluate f env
          (SphericalEvaluator (NumberLiteral ZERO) (NumberLiteral ZERO) (IdentLiteral ''auto'') None))
       = (Finite 0, Finite 0, RadiusString ''auto'')
     \<and> SphericalEvaluator_new [basicSpherical]
       = Inr (SphericalEvaluator (NumberLiteral (numberNode 1 (Some ''rad'')))
           (NumberLiteral (numberNode 180 (Some ''deg'')))
           (NumberLiteral (numberNode 100 (Some ''cm''))) None)
     \<and> fst (SphericalEvaluator_evaluate f env
          (SphericalEvaluator (NumberLiteral (numberNode 1 (Some ''rad'')))
             (NumberLiteral (numberNode 180 (Some ''deg'')))
             (NumberLiteral (numberNode 100 (Some ''cm''))) None))
       = (Finite 1, Finite Math_PI, RadiusNumber (Finite 1))"
proof (intro impI conjI)
  assume n: "normalizes f"
  show "SphericalEvaluator_new []
       = Inr (SphericalEvaluator (NumberLiteral ZERO) (NumberLiteral ZERO) (IdentLiteral ''auto'') None)"
    by (simp add: SphericalEvaluator_new_def termAt_def AUTO_def)
  show "SphericalEvaluator_new [[]]
       = Inr (SphericalEvaluator (NumberLiteral ZERO) (NumberLiteral ZERO) (IdentLiteral ''auto'') None)"
    by (simp add: SphericalEvaluator_new_def termAt_def AUTO_def)
  show "SphericalEvaluator_new [[NumberNode azimuth]]
       = Inr (SphericalEvaluator (NumberLiteral azimuth) (NumberLiteral ZERO) (IdentLiteral ''auto'') None)"
    by (simp add: SphericalEvaluator_new_def termAt_def AUTO_def)
  show "SphericalEvaluator_new [[NumberNode azimuth, NumberNode inclination]]
       = Inr (SphericalEvaluator (NumberLiteral azimuth) (NumberLiteral inclination)
           (IdentLiteral ''auto'') None)"
    by (simp add: SphericalEvaluator_new_def termAt_def AUTO_def)
  show "SphericalEvaluator_new [basicSpherical]
       = Inr (SphericalEvaluator (NumberLiteral (numberNode 1 (Some ''rad'')))
           (NumberLiteral (numberNode 180 (Some ''deg'')))
           (NumberLiteral (numberNode 100 (Some ''cm''))) None)"
    by (simp add: SphericalEvaluator_new_def termAt_def basicSpherical_def)
  have z: "f (NumberNode ZERO) = ZERO"
    using n by (simp add: normalizes_def normalizeUnit_def ZERO_def)
  show "fst (SphericalEvaluator_evaluate f env
          (SphericalEvaluator (NumberLiteral ZERO) (NumberLiteral ZERO) (IdentLiteral ''auto'') None))
       = (Finite 0, Finite 0, RadiusString ''auto'')"
    by (simp add: SphericalEvaluator_evaluate_fresh z) (simp add: ZERO_def)
  have c: "f (NumberNode (numberNode x u)) = normalizeUnit (numberNode x u)" for x u
    using n by (simp add: normalizes_def)
  show "fst (SphericalEvaluator_evaluate f env
          (SphericalEvaluator (NumberLiteral (numberNode 1 (Some ''rad'')))
             (NumberLiteral (numberNode 180 (Some ''deg'')))
             (NumberLiteral (numberNode 100 (Some ''cm''))) None))
       = (Finite 1, Finite Math_PI, RadiusNumber (Finite 1))"
    by (simp add: SphericalEvaluator_evaluate_fresh c) (simp add: normalizeUnit_def numberNode_def)
qed

theorem spherical_defaults_witness:
  "normalizes normalizeTerm
   \<and> SphericalEvaluator_new []
       = Inr (SphericalEvaluator (NumberLiteral ZERO) (NumberLiteral ZERO) (IdentLiteral ''auto'') None)
   \<and> fst (SphericalEvaluator_evaluate normalizeTerm scrolledPage
        (SphericalEvaluator (NumberLiteral ZERO) (NumberLiteral ZERO) (IdentLiteral ''auto'') None))
       = (Finite 0, Finite 0, RadiusString ''auto'')
   \<and> fst (SphericalEvaluator_evaluate normalizeTerm scrolledPage
          (SphericalEvaluator (NumberLiteral (numberNode 1 (Some ''rad'')))
             (NumberLiteral (numberNode 180 (Some ''deg'')))
             (NumberLiteral (numberNode 100 (Some ''cm''))) None))
       = (Finite 1, Finite Math_PI, RadiusNumber (Finite 1))"
  using spherical_defaults [of normalizeTerm ZERO ZERO scrolledPage] normalizes_normalizeTerm
  by blast

text \<open>
  C10: when the constructor returns, a radius term that is an identifier, whichever,
  is stored as it is, and \<open>evaluate()\<close> returns its string as third element, after the
  numbers of the normalized azimuth and inclination; the radius slot holds the identifier
  after the call as before.
\<close>

theorem spherical_ident_radius:
  "evaluatableFor thetaTerm = Inr theta \<and> evaluatableFor phiTerm = Inr phi \<longrightarrow>
     SphericalEvaluator_new ((thetaTerm # phiTerm # IdentNode v # terms) # expressions)
       = Inr (SphericalEvaluator theta phi (IdentLiteral v) None)
     \<and> fst (SphericalEvaluator_evaluate f env (SphericalEvaluator theta phi (IdentLiteral v) None))
       = (number (f (fst (Evaluator_evaluate f env theta))),
          number (f (fst (Evaluator_evaluate f env phi))),
          RadiusString v)
     \<and> snd (SphericalEvaluator_evaluate f env (SphericalEvaluator theta phi (IdentLiteral v) None))
       = SphericalEvaluator (snd (Evaluator_evaluate f env theta))
           (snd (Evaluator_evaluate f env phi)) (IdentLiteral v)
           (Some (number (f (fst (Evaluator_evaluate f env theta))),
              number (f (fst (Evaluator_evaluate f env phi))),
              RadiusString v))"
  by (auto simp: SphericalEvaluator_new_def termAt_def SphericalEvaluator_evaluate_unfold
      SphericalEvaluator_recomputes_def split: prod.splits)

theorem spherical_ident_radius_witness:
  "evaluatableFor (NumberNode (numberNode 1 (Some ''rad''))) = Inr (NumberLiteral (numberNode 1 (Some ''rad'')))
   \<and> evaluatableFor (NumberNode (numberNode 180 (Some ''deg''))) = Inr (NumberLiteral (numberNode 180 (Some ''deg'')))
   \<and> SphericalEvaluator_new [[NumberNode (numberNode 1 (Some ''rad'')),
         NumberNode (numberNode 180 (Some ''deg'')), IdentNode ''far'']]
       = Inr (SphericalEvaluator (NumberLiteral (numberNode 1 (Some ''rad'')))
           (NumberLiteral (numberNode 180 (Some ''deg''))) (IdentLiteral ''far'') None)
   \<and> fst (SphericalEvaluator_evaluate normalizeTerm scrolledPage
        (SphericalEvaluator (NumberLiteral (numberNode 1 (Some ''rad'')))
           (NumberLiteral (numberNode 180 (Some ''deg''))) (IdentLiteral ''far'') None))
       = (Finite 1, Finite Math_PI, RadiusString ''far'')"
proof -
  have e: "evaluatableFor (NumberNode (numberNode 1 (Some ''rad'')))
      = Inr (NumberLiteral (numberNode 1 (Some ''rad'')))"
    "evaluatableFor (NumberNode (numberNode 180 (Some ''deg'')))
      = Inr (NumberLiteral (numberNode 180 (Some ''deg'')))"
    by simp_all
  have n: "number (normalizeTerm (fst (Evaluator_evaluate normalizeTerm scrolledPage
        (NumberLiteral (numberNode 1 (Some ''rad'')))))) = Finite 1"
    "number (normalizeTerm (fst (Evaluator_evaluate normalizeTerm scrolledPage
        (NumberLiteral (numberNode 180 (Some ''deg'')))))) = Finite Math_PI"
    by (simp_all add: normalizeUnit_def numberNode_def)
  show ?thesis
    using e n
      spherical_ident_radius [of "NumberNode (numberNode 1 (Some ''rad''))"
        "NumberLiteral (numberNode 1 (Some ''rad''))" "NumberNode (numberNode 180 (Some ''deg''))"
        "NumberLiteral (numberNode 180 (Some ''deg''))" "''far''" "[]" "[]" normalizeTerm scrolledPage]
    by (simp del: evaluatableFor.simps Evaluator_evaluate.simps)
qed

end
